theory Spec2Isabelle
  imports Complex_Main
begin

section \<open>Errors and shapes\<close>

text \<open>
  The source is a PyTorch implementation of the encoder-decoder transformer
  (\<^verbatim>\<open>Transformers/model.py\<close>).  Every exception that a constructor or a forward
  call of the source can raise is a value of \<open>error\<close>; a computation that may raise
  returns \<open>error + 'a\<close>, with \<open>Inl\<close> for the exception.
\<close>

datatype error =
    AssertionError
  | KeyError
  | ZeroDivisionError
  | ValueError
  | IndexError
  | RuntimeError

definition and_then :: "error + 'a \<Rightarrow> ('a \<Rightarrow> error + 'b) \<Rightarrow> error + 'b" where
  "and_then r f = (case r of Inl e \<Rightarrow> Inl e | Inr a \<Rightarrow> f a)"

text \<open>
  A tensor shape is the list of its dimension sizes.  The functions below give, for each
  tensor operation that \<^verbatim>\<open>MultiAttentionBlock.forward\<close> uses, the shape of the result
  or the exception raised when the operand shapes do not fit.
\<close>

type_synonym shape = "nat list"

text \<open>Right-aligned broadcasting of two shapes (sizes equal, or one of them 1).\<close>

fun broadcast_rev :: "shape \<Rightarrow> shape \<Rightarrow> error + shape" where
  "broadcast_rev [] ys = Inr ys"
| "broadcast_rev xs [] = Inr xs"
| "broadcast_rev (x # xs) (y # ys) =
     (if x = y \<or> y = 1 then and_then (broadcast_rev xs ys) (\<lambda>r. Inr (x # r))
      else if x = 1 then and_then (broadcast_rev xs ys) (\<lambda>r. Inr (y # r))
      else Inl RuntimeError)"

definition broadcast_shapes :: "shape \<Rightarrow> shape \<Rightarrow> error + shape" where
  "broadcast_shapes a b = and_then (broadcast_rev (rev a) (rev b)) (\<lambda>r. Inr (rev r))"

text \<open>
  \<^verbatim>\<open>nn.Linear(in_features, out_features)\<close> applied to a tensor: the last dimension
  must be \<open>in_features\<close> and is replaced by \<open>out_features\<close>.
\<close>

definition Linear_shape :: "nat \<Rightarrow> nat \<Rightarrow> shape \<Rightarrow> error + shape" where
  "Linear_shape in_features out_features s =
     (if s = [] then Inl RuntimeError
      else if last s = in_features then Inr (butlast s @ [out_features])
      else Inl RuntimeError)"

text \<open>\<^verbatim>\<open>t.view(new)\<close>: the number of elements must not change.\<close>

definition view_shape :: "shape \<Rightarrow> shape \<Rightarrow> error + shape" where
  "view_shape s new = (if prod_list s = prod_list new then Inr new else Inl RuntimeError)"

text \<open>\<^verbatim>\<open>t.shape[i]\<close> for a non-negative index \<open>i\<close>.\<close>

definition shape_at :: "shape \<Rightarrow> nat \<Rightarrow> error + nat" where
  "shape_at s i = (if i < length s then Inr (s ! i) else Inl IndexError)"

text \<open>\<^verbatim>\<open>t.transpose(d0, d1)\<close> for non-negative dimensions.\<close>

definition transpose_shape :: "nat \<Rightarrow> nat \<Rightarrow> shape \<Rightarrow> error + shape" where
  "transpose_shape d0 d1 s =
     (if d0 < length s \<and> d1 < length s then Inr (s[d0 := s ! d1, d1 := s ! d0])
      else Inl IndexError)"

text \<open>\<^verbatim>\<open>t.transpose(-2, -1)\<close>: the last two dimensions are swapped.\<close>

definition transpose_last2_shape :: "shape \<Rightarrow> error + shape" where
  "transpose_last2_shape s =
     (if length s < 2 then Inl IndexError
      else transpose_shape (length s - 2) (length s - 1) s)"

text \<open>
  \<^verbatim>\<open>a @ b\<close> (\<^verbatim>\<open>torch.matmul\<close>): a one-dimensional operand is treated as a row
  (left) or column (right) vector whose added dimension is removed again; the leading
  (batch) dimensions are broadcast; the inner dimensions must agree.
\<close>

definition matmul_shape :: "shape \<Rightarrow> shape \<Rightarrow> error + shape" where
  "matmul_shape a b =
     (if a = [] \<or> b = [] then Inl RuntimeError
      else
        let a2 = (if length a = 1 then 1 # a else a);
            b2 = (if length b = 1 then b @ [1] else b);
            m = a2 ! (length a2 - 2); ka = last a2;
            kb = b2 ! (length b2 - 2); n = last b2
        in if ka \<noteq> kb then Inl RuntimeError
           else and_then
                  (broadcast_shapes (take (length a2 - 2) a2) (take (length b2 - 2) b2))
                  (\<lambda>batch. Inr (batch @ (if length a = 1 then [] else [m])
                                      @ (if length b = 1 then [] else [n]))))"

text \<open>
  An in-place operation (\<^verbatim>\<open>t.masked_fill_(mask, value)\<close>, an assignment to a slice)
  keeps the shape of its target: the other operand must broadcast to exactly that shape.
\<close>

definition broadcast_to :: "shape \<Rightarrow> shape \<Rightarrow> error + shape" where
  "broadcast_to src target =
     and_then (broadcast_shapes target src)
       (\<lambda>r. if r = target then Inr target else Inl RuntimeError)"

definition masked_fill_shape :: "shape \<Rightarrow> shape \<Rightarrow> error + shape" where
  "masked_fill_shape s msk = broadcast_to msk s"

section \<open>Multi-head attention: shapes\<close>

text \<open>
  A constructed \<^verbatim>\<open>MultiAttentionBlock\<close>: its hyper-parameters.  The four projections
  \<^verbatim>\<open>w_q\<close>, \<^verbatim>\<open>w_k\<close>, \<^verbatim>\<open>w_v\<close>, \<^verbatim>\<open>w_o\<close> are all
  \<^verbatim>\<open>nn.Linear(d_model, d_model)\<close>.
\<close>

record MultiAttentionBlock =
  mab_d_model :: nat
  mab_h :: nat
  mab_d_k :: nat
  mab_dropout :: real

text \<open>
  \<^verbatim>\<open>MultiAttentionBlock.attention(query, key, value, mask, dropout)\<close> on shapes;
  the result is the pair of the shapes of \<^verbatim>\<open>attention_score @ value\<close> and of
  \<^verbatim>\<open>attention_score\<close>.  Softmax and dropout keep the shape.
\<close>

definition attention_shape :: "shape \<Rightarrow> shape \<Rightarrow> shape \<Rightarrow> shape option \<Rightarrow> error + (shape \<times> shape)" where
  "attention_shape query key val msk =
     (if query = [] then Inl IndexError
      else
        and_then (transpose_last2_shape key) (\<lambda>key_t.
        and_then (matmul_shape query key_t) (\<lambda>score.
        and_then (case msk of None \<Rightarrow> Inr score | Some m \<Rightarrow> masked_fill_shape score m) (\<lambda>score.
        and_then (matmul_shape score val) (\<lambda>x. Inr (x, score))))))"

text \<open>
  \<^verbatim>\<open>MultiAttentionBlock.forward(q, k, v, mask)\<close> on shapes, statement by statement:
  the three projections, the three \<^verbatim>\<open>view(...).transpose(1, 2)\<close>, the call of
  \<^verbatim>\<open>attention\<close>, and \<^verbatim>\<open>w_o\<close> applied directly to its first result.
\<close>

definition split_heads_shape :: "MultiAttentionBlock \<Rightarrow> shape \<Rightarrow> error + shape" where
  "split_heads_shape blk s =
     and_then (shape_at s 0) (\<lambda>b.
     and_then (shape_at s 1) (\<lambda>n.
     and_then (view_shape s [b, n, mab_h blk, mab_d_k blk]) (\<lambda>s4.
     transpose_shape 1 2 s4)))"

definition MultiAttentionBlock_forward_shape ::
  "MultiAttentionBlock \<Rightarrow> shape \<Rightarrow> shape \<Rightarrow> shape \<Rightarrow> shape option \<Rightarrow> error + shape" where
  "MultiAttentionBlock_forward_shape blk q k v msk =
     and_then (Linear_shape (mab_d_model blk) (mab_d_model blk) q) (\<lambda>query.
     and_then (Linear_shape (mab_d_model blk) (mab_d_model blk) k) (\<lambda>key.
     and_then (Linear_shape (mab_d_model blk) (mab_d_model blk) v) (\<lambda>val.
     and_then (split_heads_shape blk query) (\<lambda>query.
     and_then (split_heads_shape blk key) (\<lambda>key.
     and_then (split_heads_shape blk val) (\<lambda>val.
     and_then (attention_shape query key val msk) (\<lambda>(x, attention_score).
     Linear_shape (mab_d_model blk) (mab_d_model blk) x)))))))"

section \<open>Construction: \<^verbatim>\<open>build_transformer\<close> and the module constructors\<close>

text \<open>
  A constructor either raises or returns the constructed module, and on the way it runs
  tensor operations (it allocates weight tables, calls \<^verbatim>\<open>torch.zeros\<close>, ...).  A
  construction is therefore modelled as the pair of the tensor operations that ran, in
  order, each with the shape of its result, and the outcome.  The parameter values
  themselves are random (\<^verbatim>\<open>nn.Embedding\<close>, \<^verbatim>\<open>nn.Linear\<close> and
  \<^verbatim>\<open>xavier_uniform_\<close> draw them), so a constructed module records its
  hyper-parameters only.
\<close>

type_synonym tensor_event = "string \<times> shape"

type_synonym 'a built = "tensor_event list \<times> (error + 'a)"

definition ret :: "'a \<Rightarrow> 'a built" where
  "ret a = ([], Inr a)"

definition raise :: "error \<Rightarrow> 'a built" where
  "raise e = ([], Inl e)"

definition emit :: "string \<Rightarrow> shape \<Rightarrow> unit built" where
  "emit name s = ([(name, s)], Inr ())"

definition lift :: "error + 'a \<Rightarrow> 'a built" where
  "lift r = ([], r)"

definition bind_b :: "'a built \<Rightarrow> ('a \<Rightarrow> 'b built) \<Rightarrow> 'b built" where
  "bind_b m f =
     (case m of
        (l, Inl e) \<Rightarrow> (l, Inl e)
      | (l, Inr a) \<Rightarrow> (case f a of (l2, r) \<Rightarrow> (l @ l2, r)))"

definition then_b :: "unit built \<Rightarrow> 'b built \<Rightarrow> 'b built" where
  "then_b m k = bind_b m (\<lambda>_. k)"

text \<open>A construction raises when its outcome is an exception.\<close>

definition raises :: "'a built \<Rightarrow> bool" where
  "raises m = isl (snd m)"

text \<open>\<^verbatim>\<open>[ctor for _ in range(n)]\<close> and the \<^verbatim>\<open>for _ in range(N)\<close> loops.\<close>

fun repeat_b :: "nat \<Rightarrow> 'a built \<Rightarrow> 'a list built" where
  "repeat_b 0 m = ret []"
| "repeat_b (Suc n) m = bind_b m (\<lambda>a. bind_b (repeat_b n m) (\<lambda>as. ret (a # as)))"

text \<open>\<^verbatim>\<open>nn.Dropout(p)\<close> raises \<^verbatim>\<open>ValueError\<close> unless \<open>0 \<le> p \<le> 1\<close>.\<close>

definition Dropout_init :: "real \<Rightarrow> real built" where
  "Dropout_init p = (if p < 0 \<or> 1 < p then raise ValueError else ret p)"

text \<open>\<^verbatim>\<open>nn.Linear(n_in, n_out)\<close> allocates a weight of shape \<open>(n_out, n_in)\<close> and a bias.\<close>

definition Linear_init :: "nat \<Rightarrow> nat \<Rightarrow> unit built" where
  "Linear_init n_in n_out =
     then_b (emit ''nn.Linear.weight'' [n_out, n_in]) (emit ''nn.Linear.bias'' [n_out])"

record InputEmbedding =
  emb_d_model :: nat
  emb_vocab_size :: nat

definition InputEmbedding_init :: "nat \<Rightarrow> nat \<Rightarrow> InputEmbedding built" where
  "InputEmbedding_init d_model vocab_size =
     then_b (emit ''nn.Embedding.weight'' [vocab_size, d_model])
       (ret \<lparr>emb_d_model = d_model, emb_vocab_size = vocab_size\<rparr>)"

text \<open>
  The attributes of an \<^verbatim>\<open>nn.Module\<close> instance, as far as
  \<^verbatim>\<open>PositionalEncoding.__init__\<close> depends on them: the names that \<^verbatim>\<open>hasattr\<close>
  finds, and among them the registered buffers.  Assigning a plain tensor (not a
  parameter) to a name that is not a buffer stores an ordinary attribute.
  \<^verbatim>\<open>register_buffer(name, t)\<close> raises \<^verbatim>\<open>KeyError\<close> when the module already has
  an attribute \<open>name\<close> that is not a buffer.
\<close>

record module_attrs =
  attrs :: "string list"
  buffers :: "string list"

definition Module_init :: module_attrs where
  "Module_init = \<lparr>attrs = [], buffers = []\<rparr>"

definition Module_setattr :: "string \<Rightarrow> module_attrs \<Rightarrow> module_attrs" where
  "Module_setattr name m = (if name \<in> set (attrs m) then m else m\<lparr>attrs := name # attrs m\<rparr>)"

definition Module_hasattr :: "string \<Rightarrow> module_attrs \<Rightarrow> bool" where
  "Module_hasattr name m = (name \<in> set (attrs m))"

definition Module_register_buffer :: "string \<Rightarrow> module_attrs \<Rightarrow> error + module_attrs" where
  "Module_register_buffer name m =
     (if Module_hasattr name m \<and> name \<notin> set (buffers m) then Inl KeyError
      else Inr (m\<lparr>attrs := name # attrs m, buffers := name # buffers m\<rparr>))"

record PositionalEncoding =
  pe_d_model :: nat
  pe_seq_length :: nat
  pe_dropout :: real
  pe_attrs :: module_attrs

text \<open>
  \<^verbatim>\<open>PositionalEncoding.__init__\<close>, statement by statement.  \<^verbatim>\<open>torch.arange(0, d_model, 2)\<close>
  has \<open>(d_model + 1) div 2\<close> elements; the slice \<^verbatim>\<open>pe[:, ::2]\<close> has that many columns,
  the slice \<^verbatim>\<open>pe[:, 1::2]\<close> has \<open>d_model div 2\<close>.  The float division by
  \<^verbatim>\<open>d_model\<close> raises \<^verbatim>\<open>ZeroDivisionError\<close> for \<open>d_model = 0\<close>.
\<close>

definition PositionalEncoding_init :: "nat \<Rightarrow> nat \<Rightarrow> real \<Rightarrow> PositionalEncoding built" where
  "PositionalEncoding_init d_model seq_length dropout =
     (let self = Module_setattr ''seq_length'' (Module_setattr ''d_model'' Module_init) in
      bind_b (Dropout_init dropout) (\<lambda>p.
      let self = Module_setattr ''dropout'' self in
      then_b (emit ''torch.zeros'' [seq_length, d_model]) (
      let self = Module_setattr ''pe'' self;
          position = [seq_length, 1];
          div_term = [(d_model + 1) div 2] in
      then_b (emit ''torch.arange'' [seq_length]) (
      then_b (emit ''unsqueeze'' position) (
      then_b (emit ''torch.arange'' div_term) (
      then_b (emit ''float'' div_term) (
      then_b (if d_model = 0 then raise ZeroDivisionError else ret ()) (
      then_b (emit ''mul'' div_term) (
      then_b (emit ''torch.exp'' div_term) (
      bind_b (lift (broadcast_shapes position div_term)) (\<lambda>arg.
      then_b (emit ''mul'' arg) (
      then_b (emit ''torch.sin'' arg) (
      bind_b (lift (broadcast_to arg [seq_length, (d_model + 1) div 2])) (\<lambda>_.
      then_b (emit ''mul'' arg) (
      then_b (emit ''torch.cos'' arg) (
      bind_b (lift (broadcast_to arg [seq_length, d_model div 2])) (\<lambda>_.
      then_b (emit ''unsqueeze'' [1, seq_length, d_model]) (
      let self = Module_setattr ''pe'' self in
      bind_b (lift (Module_register_buffer ''pe'' self)) (\<lambda>self.
      ret \<lparr>pe_d_model = d_model, pe_seq_length = seq_length, pe_dropout = p,
           pe_attrs = self\<rparr>)))))))))))))))))))"

text \<open>
  \<^verbatim>\<open>LayerNorm.__init__\<close>: \<^verbatim>\<open>alpha\<close> and \<^verbatim>\<open>gamma\<close> are one-element parameters
  (\<^verbatim>\<open>torch.ones(1)\<close>, \<^verbatim>\<open>torch.zeros(1)\<close>), which broadcast like scalars; the record
  holds their single element.
\<close>

record LayerNorm =
  eps :: real
  alpha :: real
  gamma :: real

definition LayerNorm_init :: "real \<Rightarrow> LayerNorm built" where
  "LayerNorm_init e =
     then_b (emit ''torch.ones'' [1]) (
     then_b (emit ''torch.zeros'' [1]) (
     ret \<lparr>eps = e, alpha = 1, gamma = 0\<rparr>))"

definition LayerNorm_default_eps :: real where
  "LayerNorm_default_eps = 1 / 10 ^ 6"

record FeedForwardBlock =
  ff_d_model :: nat
  ff_d_ff :: nat
  ff_dropout :: real

definition FeedForwardBlock_init :: "nat \<Rightarrow> nat \<Rightarrow> real \<Rightarrow> FeedForwardBlock built" where
  "FeedForwardBlock_init d_model d_ff dropout =
     then_b (Linear_init d_model d_ff) (
     bind_b (Dropout_init dropout) (\<lambda>p.
     then_b (Linear_init d_ff d_model) (
     ret \<lparr>ff_d_model = d_model, ff_d_ff = d_ff, ff_dropout = p\<rparr>)))"

text \<open>
  \<^verbatim>\<open>MultiAttentionBlock.__init__\<close>: the assertion \<^verbatim>\<open>d_model % h == 0\<close> comes before
  the four projections are allocated; for \<open>h = 0\<close> the modulo itself raises
  \<^verbatim>\<open>ZeroDivisionError\<close>.
\<close>

definition MultiAttentionBlock_init :: "nat \<Rightarrow> nat \<Rightarrow> real \<Rightarrow> MultiAttentionBlock built" where
  "MultiAttentionBlock_init d_model h dropout =
     (if h = 0 then raise ZeroDivisionError
      else if d_model mod h \<noteq> 0 then raise AssertionError
      else
        then_b (Linear_init d_model d_model) (
        then_b (Linear_init d_model d_model) (
        then_b (Linear_init d_model d_model) (
        then_b (Linear_init d_model d_model) (
        bind_b (Dropout_init dropout) (\<lambda>p.
        ret \<lparr>mab_d_model = d_model, mab_h = h, mab_d_k = d_model div h,
             mab_dropout = p\<rparr>))))))"

record ResidualConnection =
  rc_norm :: LayerNorm
  rc_dropout :: real

definition ResidualConnection_init :: "real \<Rightarrow> ResidualConnection built" where
  "ResidualConnection_init dropout =
     bind_b (LayerNorm_init LayerNorm_default_eps) (\<lambda>norm.
     bind_b (Dropout_init dropout) (\<lambda>p.
     ret \<lparr>rc_norm = norm, rc_dropout = p\<rparr>))"

record EncoderBlock =
  enc_multi_head_attention :: MultiAttentionBlock
  enc_feedforward :: FeedForwardBlock
  enc_residual :: "ResidualConnection list"

definition EncoderBlock_init ::
  "MultiAttentionBlock \<Rightarrow> FeedForwardBlock \<Rightarrow> real \<Rightarrow> EncoderBlock built" where
  "EncoderBlock_init multi_head_attention feed_forward_block dropout =
     bind_b (repeat_b 2 (ResidualConnection_init dropout)) (\<lambda>rs.
     ret \<lparr>enc_multi_head_attention = multi_head_attention,
          enc_feedforward = feed_forward_block, enc_residual = rs\<rparr>)"

record DecoderBlock =
  dec_feed_forward :: FeedForwardBlock
  dec_self_attention :: MultiAttentionBlock
  dec_cross_attention :: MultiAttentionBlock
  dec_residual :: "ResidualConnection list"

definition DecoderBlock_init ::
  "MultiAttentionBlock \<Rightarrow> MultiAttentionBlock \<Rightarrow> FeedForwardBlock \<Rightarrow> real \<Rightarrow> DecoderBlock built" where
  "DecoderBlock_init self_attention cross_attention feed_forward dropout =
     bind_b (repeat_b 3 (ResidualConnection_init dropout)) (\<lambda>rs.
     ret \<lparr>dec_feed_forward = feed_forward, dec_self_attention = self_attention,
          dec_cross_attention = cross_attention, dec_residual = rs\<rparr>)"

record Encoder =
  encoder_layers :: "EncoderBlock list"
  encoder_norm :: LayerNorm

definition Encoder_init :: "EncoderBlock list \<Rightarrow> Encoder built" where
  "Encoder_init layers =
     bind_b (LayerNorm_init LayerNorm_default_eps) (\<lambda>norm.
     ret \<lparr>encoder_layers = layers, encoder_norm = norm\<rparr>)"

record Decoder =
  decoder_layers :: "DecoderBlock list"
  decoder_norm :: LayerNorm

definition Decoder_init :: "DecoderBlock list \<Rightarrow> Decoder built" where
  "Decoder_init layers =
     bind_b (LayerNorm_init LayerNorm_default_eps) (\<lambda>norm.
     ret \<lparr>decoder_layers = layers, decoder_norm = norm\<rparr>)"

record ProjectionLayer =
  proj_d_model :: nat
  proj_vocab_size :: nat

definition ProjectionLayer_init :: "nat \<Rightarrow> nat \<Rightarrow> ProjectionLayer built" where
  "ProjectionLayer_init d_model vocab_size =
     then_b (Linear_init d_model vocab_size) (
     ret \<lparr>proj_d_model = d_model, proj_vocab_size = vocab_size\<rparr>)"

record Transformer =
  encoder :: Encoder
  decoder :: Decoder
  src_emb :: InputEmbedding
  tgt_emb :: InputEmbedding
  src_pos :: PositionalEncoding
  tgt_pos :: PositionalEncoding
  projection :: ProjectionLayer

text \<open>
  The parameters with more than one dimension, which \<^verbatim>\<open>build_transformer\<close> passes
  to \<^verbatim>\<open>nn.init.xavier_uniform_\<close>: the embedding tables and the weights of the linear
  layers.
\<close>

definition MultiAttentionBlock_weights :: "MultiAttentionBlock \<Rightarrow> shape list" where
  "MultiAttentionBlock_weights a = replicate 4 [mab_d_model a, mab_d_model a]"

definition FeedForwardBlock_weights :: "FeedForwardBlock \<Rightarrow> shape list" where
  "FeedForwardBlock_weights f = [[ff_d_ff f, ff_d_model f], [ff_d_model f, ff_d_ff f]]"

definition Transformer_weights :: "Transformer \<Rightarrow> shape list" where
  "Transformer_weights t =
     concat (map (\<lambda>b. MultiAttentionBlock_weights (enc_multi_head_attention b)
                       @ FeedForwardBlock_weights (enc_feedforward b))
                 (encoder_layers (encoder t)))
     @ concat (map (\<lambda>b. FeedForwardBlock_weights (dec_feed_forward b)
                         @ MultiAttentionBlock_weights (dec_self_attention b)
                         @ MultiAttentionBlock_weights (dec_cross_attention b))
                   (decoder_layers (decoder t)))
     @ [[emb_vocab_size (src_emb t), emb_d_model (src_emb t)],
        [emb_vocab_size (tgt_emb t), emb_d_model (tgt_emb t)],
        [proj_vocab_size (projection t), proj_d_model (projection t)]]"

fun xavier_uniform_all :: "shape list \<Rightarrow> unit built" where
  "xavier_uniform_all [] = ret ()"
| "xavier_uniform_all (p # ps) = then_b (emit ''xavier_uniform_'' p) (xavier_uniform_all ps)"

text \<open>\<^verbatim>\<open>build_transformer\<close>, in the order of the source.\<close>

definition build_transformer ::
  "nat \<Rightarrow> nat \<Rightarrow> nat \<Rightarrow> nat \<Rightarrow> nat \<Rightarrow> nat \<Rightarrow> nat \<Rightarrow> real \<Rightarrow> nat \<Rightarrow> Transformer built" where
  "build_transformer src_vocab_size tgt_vocab_size src_seq_len tgt_seq_len d_model N h dropout d_ff =
     bind_b (InputEmbedding_init d_model src_vocab_size) (\<lambda>src_embed.
     bind_b (InputEmbedding_init d_model tgt_vocab_size) (\<lambda>tgt_embed.
     bind_b (PositionalEncoding_init d_model src_seq_len dropout) (\<lambda>src_pos.
     bind_b (PositionalEncoding_init d_model tgt_seq_len dropout) (\<lambda>tgt_pos.
     bind_b (repeat_b N (
               bind_b (MultiAttentionBlock_init d_model h dropout) (\<lambda>encoder_self_attention_block.
               bind_b (FeedForwardBlock_init d_model d_ff dropout) (\<lambda>feed_forward_block.
               EncoderBlock_init encoder_self_attention_block feed_forward_block dropout))))
       (\<lambda>encoder_blocks.
     bind_b (repeat_b N (
               bind_b (MultiAttentionBlock_init d_model h dropout) (\<lambda>decoder_self_attention_block.
               bind_b (MultiAttentionBlock_init d_model h dropout) (\<lambda>decoder_cross_attention_block.
               bind_b (FeedForwardBlock_init d_model d_ff dropout) (\<lambda>feed_forward_block.
               DecoderBlock_init decoder_self_attention_block decoder_cross_attention_block
                 feed_forward_block dropout)))))
       (\<lambda>decoder_blocks.
     bind_b (Encoder_init encoder_blocks) (\<lambda>encoder.
     bind_b (Decoder_init decoder_blocks) (\<lambda>decoder.
     bind_b (ProjectionLayer_init d_model tgt_vocab_size) (\<lambda>projection_layer.
     let transformer = \<lparr>encoder = encoder, decoder = decoder, src_emb = src_embed,
                        tgt_emb = tgt_embed, src_pos = src_pos, tgt_pos = tgt_pos,
                        projection = projection_layer\<rparr> in
     then_b (xavier_uniform_all (Transformer_weights transformer)) (
     ret transformer))))))))))"

text \<open>
  Lines 204 to 236 of \<^verbatim>\<open>build_transformer\<close>: what the function does once the two
  embeddings and the two positional encodings are constructed (lemma
  \<open>build_transformer_split\<close>).
\<close>

definition build_transformer_layers ::
  "InputEmbedding \<Rightarrow> InputEmbedding \<Rightarrow> PositionalEncoding \<Rightarrow> PositionalEncoding
   \<Rightarrow> nat \<Rightarrow> nat \<Rightarrow> nat \<Rightarrow> nat \<Rightarrow> real \<Rightarrow> nat \<Rightarrow> Transformer built" where
  "build_transformer_layers src_embed tgt_embed src_position tgt_position
       tgt_vocab_size d_model N h dropout d_ff =
     bind_b (repeat_b N (
               bind_b (MultiAttentionBlock_init d_model h dropout) (\<lambda>encoder_self_attention_block.
               bind_b (FeedForwardBlock_init d_model d_ff dropout) (\<lambda>feed_forward_block.
               EncoderBlock_init encoder_self_attention_block feed_forward_block dropout))))
       (\<lambda>encoder_blocks.
     bind_b (repeat_b N (
               bind_b (MultiAttentionBlock_init d_model h dropout) (\<lambda>decoder_self_attention_block.
               bind_b (MultiAttentionBlock_init d_model h dropout) (\<lambda>decoder_cross_attention_block.
               bind_b (FeedForwardBlock_init d_model d_ff dropout) (\<lambda>feed_forward_block.
               DecoderBlock_init decoder_self_attention_block decoder_cross_attention_block
                 feed_forward_block dropout)))))
       (\<lambda>decoder_blocks.
     bind_b (Encoder_init encoder_blocks) (\<lambda>encoder.
     bind_b (Decoder_init decoder_blocks) (\<lambda>decoder.
     bind_b (ProjectionLayer_init d_model tgt_vocab_size) (\<lambda>projection_layer.
     let transformer = \<lparr>encoder = encoder, decoder = decoder, src_emb = src_embed,
                        tgt_emb = tgt_embed, src_pos = src_position, tgt_pos = tgt_position,
                        projection = projection_layer\<rparr> in
     then_b (xavier_uniform_all (Transformer_weights transformer)) (
     ret transformer))))))"

text \<open>The defaults of \<^verbatim>\<open>build_transformer\<close>: \<open>d_model=512, N=6, h=8, dropout=0.1, d_ff=2048\<close>.\<close>

definition build_transformer_default :: "nat \<Rightarrow> nat \<Rightarrow> nat \<Rightarrow> nat \<Rightarrow> Transformer built" where
  "build_transformer_default src_vocab_size tgt_vocab_size src_seq_len tgt_seq_len =
     build_transformer src_vocab_size tgt_vocab_size src_seq_len tgt_seq_len 512 6 8 (1 / 10) 2048"

section \<open>Data flow of the decoder\<close>

text \<open>
  Which tensor reaches which argument of which sublayer does not depend on what the
  sublayers compute.  The forward methods of \<^verbatim>\<open>ResidualConnection\<close>,
  \<^verbatim>\<open>DecoderBlock\<close>, \<^verbatim>\<open>Decoder\<close> and \<^verbatim>\<open>Transformer.decode\<close> are therefore run on
  symbolic tensors: a value of \<open>sym\<close> records the operation that produced a tensor and
  the operands it was given, in the positions in which they were given.  Masks are
  named.  The attention and feed-forward modules of the \<open>i\<close>-th decoder block are
  referred to by \<open>SelfAttention i\<close>, \<open>CrossAttention i\<close> and \<open>FeedForward i\<close>.
\<close>

datatype module_ref = SelfAttention nat | CrossAttention nat | FeedForward nat

datatype sym =
    Input string
  | Embedded sym
  | Positioned sym
  | Added sym sym
  | Normed sym
  | Dropped sym
  | Attended module_ref sym sym sym string
  | FedForward module_ref sym

text \<open>\<^verbatim>\<open>ResidualConnection.forward(x, sublayer)\<close>: \<^verbatim>\<open>x + self.dropout(sublayer(self.norm(x)))\<close>.\<close>

definition ResidualConnection_forward :: "sym \<Rightarrow> (sym \<Rightarrow> sym) \<Rightarrow> sym" where
  "ResidualConnection_forward x sublayer = Added x (Dropped (sublayer (Normed x)))"

text \<open>
  \<^verbatim>\<open>DecoderBlock.forward(self, encoder_output, x, tgt_mask, src_mask)\<close>, with the
  parameters in the order of the source; \<^verbatim>\<open>self.self_attention(q, k, v, mask)\<close> is
  \<open>Attended (SelfAttention self) q k v mask\<close>, following the parameter order
  \<^verbatim>\<open>(q, k, v, mask)\<close> of \<^verbatim>\<open>MultiAttentionBlock.forward\<close>.
\<close>

definition DecoderBlock_forward :: "nat \<Rightarrow> sym \<Rightarrow> sym \<Rightarrow> string \<Rightarrow> string \<Rightarrow> sym" where
  "DecoderBlock_forward self encoder_output x tgt_mask src_mask =
     (let x = ResidualConnection_forward x
                (\<lambda>x. Attended (SelfAttention self) x x x tgt_mask);
          x = ResidualConnection_forward x
                (\<lambda>x. Attended (CrossAttention self) encoder_output encoder_output x src_mask);
          x = ResidualConnection_forward x (FedForward (FeedForward self))
      in x)"

text \<open>
  \<^verbatim>\<open>Decoder.forward(self, x, encoder_output, src_mask, tgt_mask)\<close>: each layer is called
  as \<^verbatim>\<open>layer(x, encoder_output, src_mask, tgt_mask)\<close>, positionally.
\<close>

fun Decoder_layers :: "nat list \<Rightarrow> sym \<Rightarrow> sym \<Rightarrow> string \<Rightarrow> string \<Rightarrow> sym" where
  "Decoder_layers [] x encoder_output src_mask tgt_mask = x"
| "Decoder_layers (layer # layers) x encoder_output src_mask tgt_mask =
     Decoder_layers layers (DecoderBlock_forward layer x encoder_output src_mask tgt_mask)
       encoder_output src_mask tgt_mask"

definition Decoder_forward :: "nat list \<Rightarrow> sym \<Rightarrow> sym \<Rightarrow> string \<Rightarrow> string \<Rightarrow> sym" where
  "Decoder_forward layers x encoder_output src_mask tgt_mask =
     Normed (Decoder_layers layers x encoder_output src_mask tgt_mask)"

text \<open>\<^verbatim>\<open>Transformer.decode(self, encoder_output, src_mask, tgt, tgt_mask)\<close>.\<close>

definition Transformer_decode :: "nat list \<Rightarrow> sym \<Rightarrow> string \<Rightarrow> sym \<Rightarrow> string \<Rightarrow> sym" where
  "Transformer_decode layers encoder_output src_mask tgt tgt_mask =
     (let tgt = Embedded tgt;
          tgt = Positioned tgt
      in Decoder_forward layers tgt encoder_output src_mask tgt_mask)"

text \<open>
  The arguments \<open>(q, k, v, mask)\<close> with which a given attention module is called in the
  computation of a tensor, if it is called.
\<close>

definition or_else :: "'a option \<Rightarrow> 'a option \<Rightarrow> 'a option" where
  "or_else a b = (case a of Some c \<Rightarrow> Some c | None \<Rightarrow> b)"

fun find_call :: "module_ref \<Rightarrow> sym \<Rightarrow> (sym \<times> sym \<times> sym \<times> string) option" where
  "find_call m (Input n) = None"
| "find_call m (Embedded a) = find_call m a"
| "find_call m (Positioned a) = find_call m a"
| "find_call m (Added a b) = or_else (find_call m a) (find_call m b)"
| "find_call m (Normed a) = find_call m a"
| "find_call m (Dropped a) = find_call m a"
| "find_call m (Attended m' q k v msk) =
     (if m' = m then Some (q, k, v, msk)
      else or_else (find_call m q) (or_else (find_call m k) (find_call m v)))"
| "find_call m (FedForward m' a) = find_call m a"

section \<open>Numbers\<close>

text \<open>
  The numeric parts of the source are modelled over the real numbers: a tensor element
  is a \<open>real\<close>, and \<^verbatim>\<open>exp\<close>, \<^verbatim>\<open>sin\<close>, \<^verbatim>\<open>cos\<close>, \<^verbatim>\<open>sqrt\<close> are the
  mathematical functions.  Rounding, overflow and underflow of the floating-point
  numbers of the tensor library are not part of the model.  A tensor of one dimension is
  a list, a tensor of two dimensions (a matrix) is the list of its rows.
\<close>

type_synonym matrix = "real list list"

definition is_matrix :: "nat \<Rightarrow> nat \<Rightarrow> 'a list list \<Rightarrow> bool" where
  "is_matrix r c m = (length m = r \<and> (\<forall>row \<in> set m. length row = c))"

definition ncols :: "'a list list \<Rightarrow> nat" where
  "ncols m = (case m of [] \<Rightarrow> 0 | row # _ \<Rightarrow> length row)"

section \<open>Layer normalisation\<close>

text \<open>
  \<^verbatim>\<open>x.mean(dim=-1, keepdim=True)\<close> and \<^verbatim>\<open>x.std(dim=-1, keepdim=True)\<close> on one
  feature vector.  \<^verbatim>\<open>torch.Tensor.std\<close> is called with its defaults, under which it
  applies Bessel's correction: the sum of the squared deviations is divided by \<open>n - 1\<close>.
  (For \<open>n = 1\<close> the library returns NaN, for \<open>n = 0\<close> both functions do; the real-valued
  model has no NaN, and the properties below are stated for \<open>n \<ge> 2\<close>.)
\<close>

definition mean :: "real list \<Rightarrow> real" where
  "mean x = sum_list x / real (length x)"

definition std :: "real list \<Rightarrow> real" where
  "std x = sqrt (sum_list (map (\<lambda>v. (v - mean x)\<^sup>2) x) / (real (length x) - 1))"

text \<open>
  A tensor of any rank \<open>\<ge> 1\<close>: a feature vector, or a stack of tensors along a leading
  dimension.  \<^verbatim>\<open>LayerNorm.forward\<close> works on each feature vector.
\<close>

datatype tensor = Vec "real list" | Stack "tensor list"

fun LayerNorm_forward :: "LayerNorm \<Rightarrow> tensor \<Rightarrow> tensor" where
  "LayerNorm_forward self (Vec x) =
     Vec (map (\<lambda>v. alpha self * (v - mean x) / (std x + eps self) + gamma self) x)"
| "LayerNorm_forward self (Stack ts) = Stack (map (LayerNorm_forward self) ts)"

text \<open>
  The feature vector of a tensor at given indices of its leading dimensions, if the
  indices are in range: for a tensor of shape \<open>(batch, seq_len, d_model)\<close> the vector at
  \<open>[b, s]\<close>, for a single feature vector the vector itself at \<open>[]\<close>.
\<close>

fun tensor_at :: "tensor \<Rightarrow> nat list \<Rightarrow> real list option" where
  "tensor_at (Vec x) [] = Some x"
| "tensor_at (Vec x) (i # idx) = None"
| "tensor_at (Stack ts) [] = None"
| "tensor_at (Stack ts) (i # idx) = (if i < length ts then tensor_at (ts ! i) idx else None)"

text \<open>
  The normalisation as the specification words it: the same formula with the population
  standard deviation, which divides by \<open>n\<close>.
\<close>

definition population_std :: "real list \<Rightarrow> real" where
  "population_std x = sqrt (sum_list (map (\<lambda>v. (v - mean x)\<^sup>2) x) / real (length x))"

fun spec_LayerNorm_forward :: "LayerNorm \<Rightarrow> tensor \<Rightarrow> tensor" where
  "spec_LayerNorm_forward self (Vec x) =
     Vec (map (\<lambda>v. alpha self * (v - mean x) / (population_std x + eps self) + gamma self) x)"
| "spec_LayerNorm_forward self (Stack ts) = Stack (map (spec_LayerNorm_forward self) ts)"

section \<open>The positional-encoding table\<close>

text \<open>
  The value of \<^verbatim>\<open>self.pe\<close> after line 33 of \<^verbatim>\<open>PositionalEncoding.__init__\<close>, that
  is the table itself, before the constructor registers it.  The exceptions are those of
  \<open>PositionalEncoding_init\<close> up to that line.
\<close>

text \<open>\<^verbatim>\<open>torch.arange(0, n, 2)\<close>.\<close>

definition arange2 :: "nat \<Rightarrow> nat list" where
  "arange2 n = map (\<lambda>i. 2 * i) [0..<(n + 1) div 2]"

text \<open>
  \<^verbatim>\<open>pe[:, start::2] = val\<close>: the columns \<open>start, start + 2, ...\<close> of each row take the
  entries of the same row of \<open>val\<close>; a row of \<open>val\<close> with a single entry is broadcast.
\<close>

definition setitem_stride2 :: "matrix \<Rightarrow> nat \<Rightarrow> matrix \<Rightarrow> matrix" where
  "setitem_stride2 pe start val =
     map (\<lambda>r. map (\<lambda>c. if start \<le> c \<and> even (c - start)
                         then (if length (val ! r) = 1 then val ! r ! 0
                               else val ! r ! ((c - start) div 2))
                         else pe ! r ! c)
                   [0..<length (pe ! r)])
         [0..<length pe]"

text \<open>
  \<^verbatim>\<open>position\<close> is the column \<open>(seq_length, 1)\<close> of the positions, \<^verbatim>\<open>div_term\<close> the
  row of the \<open>(d_model + 1) div 2\<close> frequencies; their product broadcasts to
  \<open>(seq_length, (d_model + 1) div 2)\<close>.
\<close>

definition PositionalEncoding_position :: "nat \<Rightarrow> matrix" where
  "PositionalEncoding_position seq_length = map (\<lambda>p. [real p]) [0..<seq_length]"

definition PositionalEncoding_div_term :: "nat \<Rightarrow> real list" where
  "PositionalEncoding_div_term d_model =
     map (\<lambda>j. exp (real j * (- ln 10000 / real d_model))) (arange2 d_model)"

definition mul_column_row :: "matrix \<Rightarrow> real list \<Rightarrow> matrix" where
  "mul_column_row col row = map (\<lambda>r. map (\<lambda>t. r ! 0 * t) row) col"

definition PositionalEncoding_pe :: "nat \<Rightarrow> nat \<Rightarrow> error + real list list list" where
  "PositionalEncoding_pe d_model seq_length =
     (let pe = replicate seq_length (replicate d_model (0::real));
          position = PositionalEncoding_position seq_length
      in if d_model = 0 then Inl ZeroDivisionError
         else
           let div_term = PositionalEncoding_div_term d_model;
               arg = mul_column_row position div_term
           in and_then (broadcast_to [seq_length, length div_term] [seq_length, (d_model + 1) div 2])
                (\<lambda>_. let pe = setitem_stride2 pe 0 (map (map sin) arg)
                 in and_then (broadcast_to [seq_length, length div_term] [seq_length, d_model div 2])
                      (\<lambda>_. let pe = setitem_stride2 pe 1 (map (map cos) arg)
                       in Inr [pe])))"

section \<open>Scaled dot-product attention\<close>

text \<open>
  \<^verbatim>\<open>MultiAttentionBlock.attention\<close> on matrices.  In \<^verbatim>\<open>forward\<close> the operands have
  the shape \<open>(batch, h, seq_len, d_k)\<close>; matrix product, \<^verbatim>\<open>masked_fill_\<close> and
  \<^verbatim>\<open>softmax(-1)\<close> treat the two leading dimensions as batch dimensions, so the
  computation is the one below for each pair of a batch index and a head, on the matrices
  \<open>(seq_len, d_k)\<close> of that pair and on the \<open>(seq_len_q, seq_len_k)\<close> slice of the mask
  that broadcasting selects.  A matrix with no rows has no recorded width; the
  properties below are stated for matrices with at least one row and one column.
\<close>

text \<open>\<^verbatim>\<open>m.transpose(-2, -1)\<close>.\<close>

definition mat_transpose :: "matrix \<Rightarrow> matrix" where
  "mat_transpose m = map (\<lambda>j. map (\<lambda>row. row ! j) m) [0..<ncols m]"

text \<open>\<^verbatim>\<open>a @ b\<close>: every row of \<open>a\<close> must have as many entries as \<open>b\<close> has rows.\<close>

definition matmul :: "matrix \<Rightarrow> matrix \<Rightarrow> error + matrix" where
  "matmul a b =
     (if list_all (\<lambda>row. length row = length b) a
      then Inr (map (\<lambda>row. map (\<lambda>j. \<Sum>k\<leftarrow>[0..<length b]. row ! k * b ! k ! j) [0..<ncols b]) a)
      else Inl RuntimeError)"

text \<open>\<^verbatim>\<open>mask == 0\<close>, elementwise.\<close>

definition eq_zero :: "int list list \<Rightarrow> bool list list" where
  "eq_zero m = map (map (\<lambda>e. e = 0)) m"

text \<open>
  \<^verbatim>\<open>t.masked_fill_(mask, value)\<close>: the mask must broadcast to the shape of \<open>t\<close>, a
  dimension of size 1 of the mask being repeated; the entries of \<open>t\<close> where the mask is
  true become \<open>value\<close>.
\<close>

definition mask_fits :: "'a list list \<Rightarrow> nat \<Rightarrow> nat \<Rightarrow> bool" where
  "mask_fits m r c =
     ((length m = r \<or> length m = 1) \<and> list_all (\<lambda>row. length row = c \<or> length row = 1) m)"

definition mask_at :: "'a list list \<Rightarrow> nat \<Rightarrow> nat \<Rightarrow> 'a" where
  "mask_at m i j =
     (let row = (if length m = 1 then m ! 0 else m ! i)
      in if length row = 1 then row ! 0 else row ! j)"

definition masked_fill :: "matrix \<Rightarrow> bool list list \<Rightarrow> real \<Rightarrow> error + matrix" where
  "masked_fill t msk v =
     (if mask_fits msk (length t) (ncols t)
      then Inr (map (\<lambda>i. map (\<lambda>j. if mask_at msk i j then v else t ! i ! j)
                              [0..<length (t ! i)])
                    [0..<length t])
      else Inl RuntimeError)"

text \<open>\<^verbatim>\<open>softmax(-1)\<close> on one row, and on every row of a matrix.\<close>

definition softmax :: "real list \<Rightarrow> real list" where
  "softmax xs = map (\<lambda>x. exp x / sum_list (map exp xs)) xs"

text \<open>
  \<^verbatim>\<open>attention(query, key, value, mask, dropout)\<close>.  \<^verbatim>\<open>mask\<close> and \<^verbatim>\<open>dropout\<close> may be
  \<^verbatim>\<open>None\<close>.  A dropout module is any function on the attention probabilities: in
  evaluation mode the identity, in training mode a random zeroing and rescaling.  The
  fill value is the constant \<^verbatim>\<open>-1e9\<close>.
\<close>

definition attention ::
  "matrix \<Rightarrow> matrix \<Rightarrow> matrix \<Rightarrow> int list list option \<Rightarrow> (matrix \<Rightarrow> matrix) option
   \<Rightarrow> error + (matrix \<times> matrix)" where
  "attention query key val msk dropout =
     (let d_k = ncols query in
      and_then (matmul query (mat_transpose key)) (\<lambda>product.
      let attention_score = map (map (\<lambda>x. x / sqrt (real d_k))) product in
      and_then (case msk of
                  None \<Rightarrow> Inr attention_score
                | Some m \<Rightarrow> masked_fill attention_score (eq_zero m) (- 1000000000))
        (\<lambda>attention_score.
      let attention_score = map softmax attention_score;
          attention_score = (case dropout of
                               None \<Rightarrow> attention_score
                             | Some f \<Rightarrow> f attention_score) in
      and_then (matmul attention_score val) (\<lambda>x. Inr (x, attention_score)))))"

text \<open>The first result of \<^verbatim>\<open>attention\<close> at one query position.\<close>

definition attention_output_at ::
  "matrix \<Rightarrow> matrix \<Rightarrow> matrix \<Rightarrow> int list list option \<Rightarrow> (matrix \<Rightarrow> matrix) option \<Rightarrow> nat
   \<Rightarrow> error + real list" where
  "attention_output_at query key val msk dropout i =
     and_then (attention query key val msk dropout)
       (\<lambda>(x, attention_score). if i < length x then Inr (x ! i) else Inl IndexError)"

text \<open>
  The value of \<^verbatim>\<open>attention_score\<close> when \<^verbatim>\<open>attention\<close> returns, that is the part of
  \<^verbatim>\<open>attention\<close> in which \<^verbatim>\<open>value\<close> does not occur; the first result of
  \<^verbatim>\<open>attention\<close> is its product with \<^verbatim>\<open>value\<close> (lemma \<open>attention_split\<close>).
\<close>

definition attention_weights ::
  "matrix \<Rightarrow> matrix \<Rightarrow> int list list option \<Rightarrow> (matrix \<Rightarrow> matrix) option \<Rightarrow> error + matrix" where
  "attention_weights query key msk dropout =
     (let d_k = ncols query in
      and_then (matmul query (mat_transpose key)) (\<lambda>product.
      let attention_score = map (map (\<lambda>x. x / sqrt (real d_k))) product in
      and_then (case msk of
                  None \<Rightarrow> Inr attention_score
                | Some m \<Rightarrow> masked_fill attention_score (eq_zero m) (- 1000000000))
        (\<lambda>attention_score.
      let attention_score = map softmax attention_score
      in Inr (case dropout of None \<Rightarrow> attention_score | Some f \<Rightarrow> f attention_score))))"

section \<open>Attention on a store of tensors\<close>

text \<open>
  To say which tensors a call of \<^verbatim>\<open>attention\<close> writes, tensors are placed in a store:
  a list of storages, addressed by position.  A tensor object refers to a storage and may
  view it transposed (\<^verbatim>\<open>key.transpose(-2, -1)\<close> returns such a view of the storage of
  \<^verbatim>\<open>key\<close>, without copying).  Every operation of \<^verbatim>\<open>attention\<close> that returns a new
  tensor allocates a new storage; \<^verbatim>\<open>masked_fill_\<close> alone writes into the storage of the
  tensor it is called on.  An exception leaves the store as it was when it was raised.
\<close>

datatype storage = Reals matrix | Ints "int list list" | Bools "bool list list"

type_synonym store = "storage list"

record tensor_ref =
  storage_of :: nat
  transposed :: bool

type_synonym 'a store_op = "store \<Rightarrow> (error + 'a) \<times> store"

definition st_ret :: "'a \<Rightarrow> 'a store_op" where
  "st_ret a st = (Inr a, st)"

definition st_lift :: "error + 'a \<Rightarrow> 'a store_op" where
  "st_lift r st = (r, st)"

definition st_bind :: "'a store_op \<Rightarrow> ('a \<Rightarrow> 'b store_op) \<Rightarrow> 'b store_op" where
  "st_bind m f st = (case m st of (Inl e, st') \<Rightarrow> (Inl e, st') | (Inr a, st') \<Rightarrow> f a st')"

text \<open>Allocation of a new tensor.\<close>

definition st_new :: "storage \<Rightarrow> tensor_ref store_op" where
  "st_new s st = (Inr \<lparr>storage_of = length st, transposed = False\<rparr>, st @ [s])"

text \<open>
  Reading a tensor as a real matrix, an integer matrix or a boolean matrix; an operation
  applied to a tensor of another element type raises.
\<close>

definition read_reals :: "tensor_ref \<Rightarrow> store \<Rightarrow> error + matrix" where
  "read_reals t st =
     (if storage_of t < length st
      then (case st ! storage_of t of
              Reals m \<Rightarrow> Inr (if transposed t then mat_transpose m else m)
            | Ints m \<Rightarrow> Inl RuntimeError
            | Bools m \<Rightarrow> Inl RuntimeError)
      else Inl RuntimeError)"

definition read_ints :: "tensor_ref \<Rightarrow> store \<Rightarrow> error + int list list" where
  "read_ints t st =
     (if storage_of t < length st
      then (case st ! storage_of t of
              Ints m \<Rightarrow> Inr (if transposed t then List.transpose m else m)
            | Reals m \<Rightarrow> Inl RuntimeError
            | Bools m \<Rightarrow> Inl RuntimeError)
      else Inl RuntimeError)"

definition read_bools :: "tensor_ref \<Rightarrow> store \<Rightarrow> error + bool list list" where
  "read_bools t st =
     (if storage_of t < length st
      then (case st ! storage_of t of
              Bools m \<Rightarrow> Inr (if transposed t then List.transpose m else m)
            | Reals m \<Rightarrow> Inl RuntimeError
            | Ints m \<Rightarrow> Inl RuntimeError)
      else Inl RuntimeError)"

definition st_read :: "(store \<Rightarrow> error + 'a) \<Rightarrow> 'a store_op" where
  "st_read r st = (r st, st)"

definition transpose_view :: "tensor_ref \<Rightarrow> tensor_ref" where
  "transpose_view t = t\<lparr>transposed := \<not> transposed t\<rparr>"

text \<open>Writing a real matrix through a tensor object into its storage.\<close>

definition write_reals :: "tensor_ref \<Rightarrow> matrix \<Rightarrow> store \<Rightarrow> store" where
  "write_reals t m st =
     st[storage_of t := Reals (if transposed t then mat_transpose m else m)]"

text \<open>\<^verbatim>\<open>t.masked_fill_(mask, value)\<close>: in place; the result is \<open>t\<close> itself.\<close>

definition masked_fill_st :: "tensor_ref \<Rightarrow> tensor_ref \<Rightarrow> real \<Rightarrow> tensor_ref store_op" where
  "masked_fill_st t msk v =
     st_bind (st_read (read_reals t)) (\<lambda>m.
     st_bind (st_read (read_bools msk)) (\<lambda>b.
     st_bind (st_lift (masked_fill m b v)) (\<lambda>m'.
     (\<lambda>st. (Inr t, write_reals t m' st)))))"

text \<open>
  \<^verbatim>\<open>attention(query, key, value, mask, dropout)\<close> on the store, statement by statement:
  the product, its quotient by \<^verbatim>\<open>math.sqrt(d_k)\<close>, \<^verbatim>\<open>mask == 0\<close>, the softmax, the
  result of the dropout module and the final product are new tensors.
\<close>

definition attention_st ::
  "tensor_ref \<Rightarrow> tensor_ref \<Rightarrow> tensor_ref \<Rightarrow> tensor_ref option \<Rightarrow> (matrix \<Rightarrow> matrix) option
   \<Rightarrow> (tensor_ref \<times> tensor_ref) store_op" where
  "attention_st query key val msk dropout =
     st_bind (st_read (read_reals query)) (\<lambda>q.
     let d_k = ncols q in
     st_bind (st_read (read_reals (transpose_view key))) (\<lambda>k_t.
     st_bind (st_lift (matmul q k_t)) (\<lambda>product.
     st_bind (st_new (Reals product)) (\<lambda>_.
     st_bind (st_new (Reals (map (map (\<lambda>x. x / sqrt (real d_k))) product))) (\<lambda>attention_score.
     st_bind (case msk of
                None \<Rightarrow> st_ret attention_score
              | Some m \<Rightarrow>
                  st_bind (st_read (read_ints m)) (\<lambda>mi.
                  st_bind (st_new (Bools (eq_zero mi))) (\<lambda>is_zero.
                  masked_fill_st attention_score is_zero (- 1000000000))))
       (\<lambda>attention_score.
     st_bind (st_read (read_reals attention_score)) (\<lambda>s.
     st_bind (st_new (Reals (map softmax s))) (\<lambda>attention_score.
     st_bind (case dropout of
                None \<Rightarrow> st_ret attention_score
              | Some f \<Rightarrow>
                  st_bind (st_read (read_reals attention_score)) (\<lambda>p.
                  st_new (Reals (f p))))
       (\<lambda>attention_score.
     st_bind (st_read (read_reals attention_score)) (\<lambda>p.
     st_bind (st_read (read_reals val)) (\<lambda>v.
     st_bind (st_lift (matmul p v)) (\<lambda>x.
     st_bind (st_new (Reals x)) (\<lambda>x.
     st_ret (x, attention_score))))))))))))))"

text \<open>
  A store operation keeps the first \<open>n\<close> storages: started in a store with at least
  \<open>n\<close> storages it ends in one whose first \<open>n\<close> storages are the same, and its result,
  if any, satisfies \<open>P\<close>.
\<close>

definition keeps :: "nat \<Rightarrow> ('a \<Rightarrow> bool) \<Rightarrow> 'a store_op \<Rightarrow> bool" where
  "keeps n P m =
     (\<forall>st. n \<le> length st \<longrightarrow>
        (case m st of (r, st') \<Rightarrow>
           n \<le> length st' \<and> take n st' = take n st
           \<and> (case r of Inl e \<Rightarrow> True | Inr a \<Rightarrow> P a)))"

section \<open>Properties of the shapes in multi-head attention\<close>

lemma Linear_shape_length: "Linear_shape a b s = Inr r \<Longrightarrow> length r = length s"
  by (auto simp: Linear_shape_def split: if_splits)

lemma split_heads_shape_length: "split_heads_shape blk s = Inr r \<Longrightarrow> length r = 4"
  by (auto simp: split_heads_shape_def and_then_def shape_at_def view_shape_def transpose_shape_def
      split: sum.splits if_splits)

lemma broadcast_rev_length:
  "broadcast_rev xs ys = Inr r \<Longrightarrow> length r = max (length xs) (length ys)"
  by (induction xs ys arbitrary: r rule: broadcast_rev.induct)
     (auto simp: and_then_def split: sum.splits if_splits)

lemma broadcast_shapes_length:
  "broadcast_shapes a b = Inr r \<Longrightarrow> length r = max (length a) (length b)"
  by (auto simp: broadcast_shapes_def and_then_def split: sum.splits dest: broadcast_rev_length)

lemma matmul_shape_length:
  "matmul_shape a b = Inr r \<Longrightarrow> 2 \<le> length a \<Longrightarrow> 2 \<le> length b \<Longrightarrow>
   length r = max (length a) (length b)"
  by (auto simp: matmul_shape_def Let_def and_then_def split: sum.splits if_splits
      dest!: broadcast_shapes_length)

lemma transpose_last2_shape_length: "transpose_last2_shape s = Inr r \<Longrightarrow> length r = length s"
  by (auto simp: transpose_last2_shape_def transpose_shape_def split: if_splits)

lemma masked_fill_shape_same: "masked_fill_shape s m = Inr r \<Longrightarrow> r = s"
  by (auto simp: masked_fill_shape_def broadcast_to_def and_then_def split: sum.splits if_splits)

lemma attention_shape_length:
  assumes "attention_shape q k v m = Inr (x, sc)" "length q = 4" "length k = 4" "length v = 4"
  shows "length x = 4"
proof -
  from assms(1) obtain kt s0 s1 where
    kt: "transpose_last2_shape k = Inr kt" and s0: "matmul_shape q kt = Inr s0"
    and s1: "(case m of None \<Rightarrow> Inr s0 | Some m' \<Rightarrow> masked_fill_shape s0 m') = Inr s1"
    and x: "matmul_shape s1 v = Inr x"
    by (auto simp: attention_shape_def and_then_def split: sum.splits if_splits)
  have "length kt = 4" using kt assms(3) by (simp add: transpose_last2_shape_length)
  then have "length s0 = 4" using matmul_shape_length[OF s0] assms(2) by simp
  moreover have "s1 = s0" using s1 by (auto split: option.splits dest: masked_fill_shape_same)
  ultimately show ?thesis using matmul_shape_length[OF x] assms(4) by simp
qed

text \<open>
  Whatever the operands, a result of \<^verbatim>\<open>MultiAttentionBlock.forward\<close> has four
  dimensions: the head axis made by \<^verbatim>\<open>view(...).transpose(1, 2)\<close> is still there when
  \<^verbatim>\<open>w_o\<close> is applied.
\<close>

lemma MultiAttentionBlock_forward_shape_length:
  assumes "MultiAttentionBlock_forward_shape blk q k v m = Inr r"
  shows "length r = 4"
proof -
  from assms obtain q1 k1 v1 q2 k2 v2 x sc where
    "split_heads_shape blk q1 = Inr q2" "split_heads_shape blk k1 = Inr k2"
    "split_heads_shape blk v1 = Inr v2" "attention_shape q2 k2 v2 m = Inr (x, sc)"
    "Linear_shape (mab_d_model blk) (mab_d_model blk) x = Inr r"
    by (auto simp: MultiAttentionBlock_forward_shape_def and_then_def split: sum.splits)
  then show ?thesis
    using attention_shape_length split_heads_shape_length Linear_shape_length by metis
qed

lemma MultiAttentionBlock_forward_shape_two_heads:
  "MultiAttentionBlock_forward_shape
     \<lparr>mab_d_model = 8, mab_h = 2, mab_d_k = 4, mab_dropout = 1 / 10\<rparr>
     [1, 3, 8] [1, 3, 8] [1, 3, 8] None = Inl RuntimeError"
  by code_simp

lemma MultiAttentionBlock_forward_shape_one_head:
  "MultiAttentionBlock_forward_shape
     \<lparr>mab_d_model = 8, mab_h = 1, mab_d_k = 8, mab_dropout = 1 / 10\<rparr>
     [1, 3, 8] [1, 3, 8] [1, 3, 8] None = Inr [1, 1, 3, 8]"
  by code_simp

text \<open>
  Claim C1.  The claim: for every batch size \<open>B\<close>, sequence length \<open>S\<close> and head count
  \<open>h\<close> dividing \<open>d_model\<close>, the output of \<^verbatim>\<open>MultiAttentionBlock.forward\<close> on
  query, key and value of shape \<open>(B, S, d_model)\<close> has the shape \<open>(B, S, d_model)\<close>.
  The code never returns that shape: \<^verbatim>\<open>forward\<close> applies \<^verbatim>\<open>w_o\<close> to the result of
  \<^verbatim>\<open>attention\<close> of shape \<open>(B, h, S, d_k)\<close> without transposing and reshaping it back.
  With \<open>d_model = 8\<close> and \<open>h = 2\<close> the last dimension is \<open>d_k = 4\<close>, which
  \<^verbatim>\<open>nn.Linear(8, 8)\<close> rejects; with \<open>h = 1\<close> the call returns the four-dimensional
  shape \<open>(1, 1, 3, 8)\<close>.
\<close>

theorem MultiAttentionBlock_forward_shape_not_query_shape:
  "MultiAttentionBlock_forward_shape blk [B, S, d] [B, S, d] [B, S, d] msk \<noteq> Inr [B, S, d]
   \<and> MultiAttentionBlock_init 8 2 (1 / 10) =
       (concat (replicate 4 [(''nn.Linear.weight'', [8, 8]), (''nn.Linear.bias'', [8])]),
        Inr \<lparr>mab_d_model = 8, mab_h = 2, mab_d_k = 4, mab_dropout = 1 / 10\<rparr>)
   \<and> MultiAttentionBlock_forward_shape
         \<lparr>mab_d_model = 8, mab_h = 2, mab_d_k = 4, mab_dropout = 1 / 10\<rparr>
         [1, 3, 8] [1, 3, 8] [1, 3, 8] None = Inl RuntimeError
   \<and> MultiAttentionBlock_forward_shape
         \<lparr>mab_d_model = 8, mab_h = 1, mab_d_k = 8, mab_dropout = 1 / 10\<rparr>
         [1, 3, 8] [1, 3, 8] [1, 3, 8] None = Inr [1, 1, 3, 8]"
proof -
  have "MultiAttentionBlock_forward_shape blk [B, S, d] [B, S, d] [B, S, d] msk \<noteq> Inr [B, S, d]"
  proof
    assume "MultiAttentionBlock_forward_shape blk [B, S, d] [B, S, d] [B, S, d] msk = Inr [B, S, d]"
    from MultiAttentionBlock_forward_shape_length[OF this] show False by simp
  qed
  moreover have "MultiAttentionBlock_init 8 2 (1 / 10) =
       (concat (replicate 4 [(''nn.Linear.weight'', [8, 8]), (''nn.Linear.bias'', [8])]),
        Inr \<lparr>mab_d_model = 8, mab_h = 2, mab_d_k = 4, mab_dropout = 1 / 10\<rparr>)"
    by code_simp
  ultimately show ?thesis
    using MultiAttentionBlock_forward_shape_two_heads MultiAttentionBlock_forward_shape_one_head
    by blast
qed

section \<open>Properties of the construction\<close>

lemma snd_bind_b:
  "snd (bind_b m f) = (case snd m of Inl e \<Rightarrow> Inl e | Inr a \<Rightarrow> snd (f a))"
  by (cases m) (auto simp: bind_b_def split: prod.splits sum.splits)

lemma raises_bind: "(\<And>a. raises (f a)) \<Longrightarrow> raises (bind_b m f)"
  by (simp add: raises_def snd_bind_b split: sum.splits)

lemma raises_then: "raises k \<Longrightarrow> raises (then_b m k)"
  by (simp add: then_b_def raises_bind)

lemma raises_bind_left: "raises m \<Longrightarrow> raises (bind_b m f)"
  by (auto simp: raises_def snd_bind_b split: sum.splits)

lemma raises_lift_Inl: "raises (bind_b (lift (Inl e)) f)"
  by (simp add: raises_def bind_b_def lift_def)

lemma bind_b_Inr: "bind_b (l, Inr a) f = (l @ fst (f a), snd (f a))"
  by (simp add: bind_b_def split: prod.splits)

lemma bind_b_Inl: "bind_b (l, Inl e) f = (l, Inl e)"
  by (simp add: bind_b_def)

lemma then_b_emit: "then_b (emit name s) (l, r) = ((name, s) # l, r)"
  by (simp add: then_b_def emit_def bind_b_Inr)

lemma then_b_ret: "then_b (ret ()) k = k"
  by (simp add: then_b_def ret_def bind_b_Inr)

lemma bind_b_lift_Inr: "bind_b (lift (Inr a)) f = f a"
  by (simp add: lift_def bind_b_Inr)

lemma bind_b_lift_Inl: "bind_b (lift (Inl e)) f = ([], Inl e)"
  by (simp add: lift_def bind_b_Inl)

lemma bind_b_ret: "bind_b (ret a) f = f a"
  by (simp add: ret_def bind_b_Inr)

lemma broadcast_col_row: "broadcast_shapes [s, Suc 0] [n] = Inr [s, n]"
  by (simp add: broadcast_shapes_def and_then_def)

lemma broadcast_to_same2: "broadcast_to [s, n] [s, n] = Inr [s, n]"
  by (simp add: broadcast_to_def broadcast_shapes_def and_then_def)

text \<open>
  \<^verbatim>\<open>self.pe = torch.zeros(...)\<close> has made \<^verbatim>\<open>pe\<close> an ordinary attribute, so the
  \<^verbatim>\<open>register_buffer("pe", self.pe)\<close> that ends \<^verbatim>\<open>PositionalEncoding.__init__\<close> raises.
\<close>

lemma register_after_setattr:
  "name \<notin> set (buffers m) \<Longrightarrow> Module_register_buffer name (Module_setattr name m) = Inl KeyError"
  by (simp add: Module_register_buffer_def Module_setattr_def Module_hasattr_def)

lemma buffers_setattr: "buffers (Module_setattr name m) = buffers m"
  by (simp add: Module_setattr_def)

lemma PositionalEncoding_init_raises: "raises (PositionalEncoding_init d s p)"
  unfolding PositionalEncoding_init_def Let_def
  by (simp only: register_after_setattr buffers_setattr Module_init_def module_attrs.simps
        list.set empty_iff not_False_eq_True)
     (intro raises_lift_Inl raises_then raises_bind)

lemma PositionalEncoding_init_even:
  assumes "0 \<le> p" "p \<le> 1" "0 < d" "even d"
  shows "PositionalEncoding_init d s p =
     ([(''torch.zeros'', [s, d]), (''torch.arange'', [s]), (''unsqueeze'', [s, 1]),
       (''torch.arange'', [d div 2]), (''float'', [d div 2]), (''mul'', [d div 2]),
       (''torch.exp'', [d div 2]), (''mul'', [s, d div 2]), (''torch.sin'', [s, d div 2]),
       (''mul'', [s, d div 2]), (''torch.cos'', [s, d div 2]), (''unsqueeze'', [1, s, d])],
      Inl KeyError)"
proof -
  have half: "(d + 1) div 2 = d div 2" using assms(4) by presburger
  have dr: "Dropout_init p = ret p" using assms(1,2) by (simp add: Dropout_init_def)
  show ?thesis
    unfolding PositionalEncoding_init_def Let_def half dr
    using assms(3)
    by (simp add: bind_b_ret then_b_emit then_b_ret broadcast_col_row broadcast_to_same2
          bind_b_lift_Inr bind_b_lift_Inl register_after_setattr buffers_setattr Module_init_def)
qed

lemma InputEmbedding_init_eq:
  "InputEmbedding_init d v =
     ([(''nn.Embedding.weight'', [v, d])], Inr \<lparr>emb_d_model = d, emb_vocab_size = v\<rparr>)"
  by (simp add: InputEmbedding_init_def ret_def then_b_emit)

text \<open>
  \<^verbatim>\<open>build_transformer\<close> allocates the two embedding tables and then constructs the
  source positional encoding; what it does afterwards depends on that constructor only.
\<close>

lemma build_transformer_prefix:
  assumes "PositionalEncoding_init d ss p = (l, Inl e)"
  shows "build_transformer sv tv ss ts d N h p dff =
     ((''nn.Embedding.weight'', [sv, d]) # (''nn.Embedding.weight'', [tv, d]) # l, Inl e)"
  unfolding build_transformer_def InputEmbedding_init_eq bind_b_Inr assms bind_b_Inl
  by simp

lemma PositionalEncoding_init_cases:
  obtains l e where "PositionalEncoding_init d ss p = (l, Inl e)"
  using PositionalEncoding_init_raises[of d ss p]
  by (cases "PositionalEncoding_init d ss p") (auto simp: raises_def isl_def)

lemma build_transformer_raises: "raises (build_transformer sv tv ss ts d N h p dff)"
proof -
  obtain l e where "PositionalEncoding_init d ss p = (l, Inl e)"
    by (rule PositionalEncoding_init_cases)
  from build_transformer_prefix[OF this] show ?thesis by (simp add: raises_def)
qed

lemma build_transformer_embeddings_first:
  "take 2 (fst (build_transformer sv tv ss ts d N h p dff)) =
     [(''nn.Embedding.weight'', [sv, d]), (''nn.Embedding.weight'', [tv, d])]"
proof -
  obtain l e where "PositionalEncoding_init d ss p = (l, Inl e)"
    by (rule PositionalEncoding_init_cases)
  from build_transformer_prefix[OF this] show ?thesis by simp
qed

lemma build_transformer_even:
  assumes "0 \<le> p" "p \<le> 1" "0 < d" "even d"
  shows "snd (build_transformer sv tv ss ts d N h p dff) = Inl KeyError"
  by (simp add: build_transformer_prefix[OF PositionalEncoding_init_even[OF assms]])

text \<open>
  Claim C5.  The claim: for every configuration with \<open>d_model % h == 0\<close> and positive
  vocabulary sizes and sequence lengths, \<^verbatim>\<open>build_transformer\<close> completes without error
  and returns a model.  The code raises for every argument, before any attention block is
  built: \<^verbatim>\<open>PositionalEncoding.__init__\<close> assigns \<^verbatim>\<open>self.pe\<close> as an ordinary
  attribute and then calls \<^verbatim>\<open>register_buffer("pe", ...)\<close>, which raises
  \<^verbatim>\<open>KeyError\<close>.  With the defaults (\<open>d_model = 512\<close>, \<open>h = 8\<close>) the outcome is that
  \<^verbatim>\<open>KeyError\<close>.
\<close>

theorem build_transformer_never_returns:
  "raises (build_transformer src_vocab_size tgt_vocab_size src_seq_len tgt_seq_len d_model N h
             dropout d_ff)
   \<and> snd (build_transformer_default 100 200 10 12) = Inl KeyError"
  by (simp add: build_transformer_raises build_transformer_default_def build_transformer_even)

text \<open>
  Claim C6, as stated: a configuration with \<open>d_model\<close> not divisible by \<open>h\<close> is rejected
  before any tensor operation runs.  At \<open>d_model = 512\<close>, \<open>h = 7\<close> the build fails, but
  tensor operations have run by then.
\<close>

theorem build_transformer_rejects_before_tensors_counterexample:
  "\<not> ((512::nat) mod 7 \<noteq> 0 \<longrightarrow>
        raises (build_transformer 100 200 10 12 512 6 7 (1 / 10) 2048)
        \<and> fst (build_transformer 100 200 10 12 512 6 7 (1 / 10) 2048) = [])"
proof -
  have "take 2 (fst (build_transformer 100 200 10 12 512 6 7 (1 / 10) 2048)) \<noteq> []"
    by (simp only: build_transformer_embeddings_first) simp
  then have "fst (build_transformer 100 200 10 12 512 6 7 (1 / 10) 2048) \<noteq> []"
    by auto
  then show ?thesis by simp
qed

lemma build_transformer_split:
  "build_transformer src_vocab_size tgt_vocab_size src_seq_len tgt_seq_len d_model N h dropout d_ff =
     bind_b (InputEmbedding_init d_model src_vocab_size) (\<lambda>src_embed.
     bind_b (InputEmbedding_init d_model tgt_vocab_size) (\<lambda>tgt_embed.
     bind_b (PositionalEncoding_init d_model src_seq_len dropout) (\<lambda>src_position.
     bind_b (PositionalEncoding_init d_model tgt_seq_len dropout) (\<lambda>tgt_position.
     build_transformer_layers src_embed tgt_embed src_position tgt_position
       tgt_vocab_size d_model N h dropout d_ff))))"
  by (simp only: build_transformer_def build_transformer_layers_def)

lemma MultiAttentionBlock_init_rejects:
  assumes "h = 0 \<or> d_model mod h \<noteq> 0"
  shows "MultiAttentionBlock_init d_model h dropout
           = ([], Inl (if h = 0 then ZeroDivisionError else AssertionError))"
  using assms by (auto simp: MultiAttentionBlock_init_def raise_def)

lemma build_transformer_layers_rejects:
  assumes "h = 0 \<or> d_model mod h \<noteq> 0" and "0 < N"
  shows "build_transformer_layers src_embed tgt_embed src_position tgt_position
           tgt_vocab_size d_model N h dropout d_ff
         = ([], Inl (if h = 0 then ZeroDivisionError else AssertionError))"
proof -
  obtain n where N: "N = Suc n" using assms(2) by (cases N) auto
  show ?thesis
    unfolding build_transformer_layers_def N repeat_b.simps
      MultiAttentionBlock_init_rejects[OF assms(1)] bind_b_Inl ..
qed

text \<open>
  With \<open>N = 0\<close> no attention block is constructed, and lines 204 to 236 return a model
  whatever \<open>h\<close> is.
\<close>

lemma build_transformer_layers_no_layers:
  "snd (build_transformer_layers src_embed tgt_embed src_position tgt_position
          tgt_vocab_size d_model 0 h dropout d_ff)
   = Inr \<lparr>encoder = \<lparr>encoder_layers = [],
                        encoder_norm = \<lparr>eps = LayerNorm_default_eps, alpha = 1, gamma = 0\<rparr>\<rparr>,
           decoder = \<lparr>decoder_layers = [],
                        decoder_norm = \<lparr>eps = LayerNorm_default_eps, alpha = 1, gamma = 0\<rparr>\<rparr>,
           src_emb = src_embed, tgt_emb = tgt_embed,
           src_pos = src_position, tgt_pos = tgt_position,
           projection = \<lparr>proj_d_model = d_model, proj_vocab_size = tgt_vocab_size\<rparr>\<rparr>"
  by (simp add: build_transformer_layers_def bind_b_ret Encoder_init_def Decoder_init_def
        LayerNorm_init_def ProjectionLayer_init_def Linear_init_def then_b_emit ret_def
        bind_b_Inr emit_def then_b_def Transformer_weights_def Let_def)

text \<open>
  Claim C6, amended.  For every configuration with \<open>d_model\<close> not divisible by \<open>h\<close>
  (or \<open>h = 0\<close>) and at least one layer, the check that rejects the configuration is the
  assertion in \<^verbatim>\<open>MultiAttentionBlock.__init__\<close> (\<^verbatim>\<open>AssertionError\<close>;
  \<^verbatim>\<open>ZeroDivisionError\<close> for \<open>h = 0\<close>): that constructor raises before it allocates
  anything, and it is the first thing \<^verbatim>\<open>build_transformer\<close> does after the embeddings
  and the positional encodings (lines 204 to 207).  The rejection is therefore not before
  any tensor operation: the two embedding tables are allocated first, and so is whatever
  the positional encodings allocate (\<open>l1\<close>, \<open>l2\<close>) when they are constructed.
\<close>

theorem build_transformer_rejects_in_attention_block:
  assumes "h = 0 \<or> d_model mod h \<noteq> 0" and "0 < N"
  shows "build_transformer src_vocab_size tgt_vocab_size src_seq_len tgt_seq_len d_model N h
           dropout d_ff =
           bind_b (InputEmbedding_init d_model src_vocab_size) (\<lambda>src_embed.
           bind_b (InputEmbedding_init d_model tgt_vocab_size) (\<lambda>tgt_embed.
           bind_b (PositionalEncoding_init d_model src_seq_len dropout) (\<lambda>src_position.
           bind_b (PositionalEncoding_init d_model tgt_seq_len dropout) (\<lambda>tgt_position.
           build_transformer_layers src_embed tgt_embed src_position tgt_position
             tgt_vocab_size d_model N h dropout d_ff))))
       \<and> build_transformer_layers src_embed tgt_embed src_position tgt_position
             tgt_vocab_size d_model N h dropout d_ff
           = ([], Inl (if h = 0 then ZeroDivisionError else AssertionError))
       \<and> MultiAttentionBlock_init d_model h dropout
           = ([], Inl (if h = 0 then ZeroDivisionError else AssertionError))
       \<and> bind_b (InputEmbedding_init d_model src_vocab_size) (\<lambda>src_embed.
           bind_b (InputEmbedding_init d_model tgt_vocab_size) (\<lambda>tgt_embed.
           bind_b (l1, Inr src_position) (\<lambda>src_position.
           bind_b (l2, Inr tgt_position) (\<lambda>tgt_position.
           build_transformer_layers src_embed tgt_embed src_position tgt_position
             tgt_vocab_size d_model N h dropout d_ff))))
           = ((''nn.Embedding.weight'', [src_vocab_size, d_model])
                # (''nn.Embedding.weight'', [tgt_vocab_size, d_model]) # l1 @ l2,
              Inl (if h = 0 then ZeroDivisionError else AssertionError))
       \<and> take 2 (fst (build_transformer src_vocab_size tgt_vocab_size src_seq_len tgt_seq_len
                         d_model N h dropout d_ff))
           = [(''nn.Embedding.weight'', [src_vocab_size, d_model]),
              (''nn.Embedding.weight'', [tgt_vocab_size, d_model])]"
proof -
  note r = build_transformer_layers_rejects[OF assms]
  have "bind_b (InputEmbedding_init d_model src_vocab_size) (\<lambda>src_embed.
           bind_b (InputEmbedding_init d_model tgt_vocab_size) (\<lambda>tgt_embed.
           bind_b (l1, Inr src_position) (\<lambda>src_position.
           bind_b (l2, Inr tgt_position) (\<lambda>tgt_position.
           build_transformer_layers src_embed tgt_embed src_position tgt_position
             tgt_vocab_size d_model N h dropout d_ff))))
           = ((''nn.Embedding.weight'', [src_vocab_size, d_model])
                # (''nn.Embedding.weight'', [tgt_vocab_size, d_model]) # l1 @ l2,
              Inl (if h = 0 then ZeroDivisionError else AssertionError))"
    unfolding InputEmbedding_init_eq bind_b_Inr r by simp
  then show ?thesis
    by (intro conjI build_transformer_split r MultiAttentionBlock_init_rejects[OF assms(1)]
          build_transformer_embeddings_first)
qed

theorem build_transformer_rejects_in_attention_block_witness:
  "build_transformer_layers \<lparr>emb_d_model = 512, emb_vocab_size = 100\<rparr>
       \<lparr>emb_d_model = 512, emb_vocab_size = 200\<rparr>
       \<lparr>pe_d_model = 512, pe_seq_length = 10, pe_dropout = 1 / 10, pe_attrs = Module_init\<rparr>
       \<lparr>pe_d_model = 512, pe_seq_length = 12, pe_dropout = 1 / 10, pe_attrs = Module_init\<rparr>
       200 512 6 7 (1 / 10) 2048
     = ([], Inl AssertionError)
   \<and> MultiAttentionBlock_init 512 7 (1 / 10) = ([], Inl AssertionError)
   \<and> bind_b (InputEmbedding_init 512 100) (\<lambda>src_embed.
       bind_b (InputEmbedding_init 512 200) (\<lambda>tgt_embed.
       bind_b ([(''torch.zeros'', [10, 512])],
               Inr \<lparr>pe_d_model = 512, pe_seq_length = 10, pe_dropout = 1 / 10,
                    pe_attrs = Module_init\<rparr>) (\<lambda>src_position.
       bind_b ([(''torch.zeros'', [12, 512])],
               Inr \<lparr>pe_d_model = 512, pe_seq_length = 12, pe_dropout = 1 / 10,
                    pe_attrs = Module_init\<rparr>) (\<lambda>tgt_position.
       build_transformer_layers src_embed tgt_embed src_position tgt_position
         200 512 6 7 (1 / 10) 2048))))
     = ([(''nn.Embedding.weight'', [100, 512]), (''nn.Embedding.weight'', [200, 512]),
         (''torch.zeros'', [10, 512]), (''torch.zeros'', [12, 512])],
        Inl AssertionError)
   \<and> take 2 (fst (build_transformer 100 200 10 12 512 6 7 (1 / 10) 2048))
       = [(''nn.Embedding.weight'', [100, 512]), (''nn.Embedding.weight'', [200, 512])]
   \<and> snd (MultiAttentionBlock_init 512 8 (1 / 10))
       = Inr \<lparr>mab_d_model = 512, mab_h = 8, mab_d_k = 64, mab_dropout = 1 / 10\<rparr>"
proof -
  have h1: "(7::nat) = 0 \<or> (512::nat) mod 7 \<noteq> 0" by simp
  have h2: "(0::nat) < 6" by simp
  have ok: "snd (MultiAttentionBlock_init 512 8 (1 / 10))
       = Inr \<lparr>mab_d_model = 512, mab_h = 8, mab_d_k = 64, mab_dropout = 1 / 10\<rparr>"
    by (simp add: MultiAttentionBlock_init_def Linear_init_def then_b_emit emit_def
          Dropout_init_def ret_def bind_b_Inr then_b_def)
  note t = build_transformer_rejects_in_attention_block[OF h1 h2, of 100 200 10 12 "1 / 10" 2048
      "\<lparr>emb_d_model = 512, emb_vocab_size = 100\<rparr>" "\<lparr>emb_d_model = 512, emb_vocab_size = 200\<rparr>"
      "\<lparr>pe_d_model = 512, pe_seq_length = 10, pe_dropout = 1 / 10, pe_attrs = Module_init\<rparr>"
      "\<lparr>pe_d_model = 512, pe_seq_length = 12, pe_dropout = 1 / 10, pe_attrs = Module_init\<rparr>"
      "[(''torch.zeros'', [10, 512])]" "[(''torch.zeros'', [12, 512])]"]
  note t2 = t[THEN conjunct2]
  note t3 = t2[THEN conjunct2]
  note t4 = t3[THEN conjunct2]
  have c2: "build_transformer_layers \<lparr>emb_d_model = 512, emb_vocab_size = 100\<rparr>
       \<lparr>emb_d_model = 512, emb_vocab_size = 200\<rparr>
       \<lparr>pe_d_model = 512, pe_seq_length = 10, pe_dropout = 1 / 10, pe_attrs = Module_init\<rparr>
       \<lparr>pe_d_model = 512, pe_seq_length = 12, pe_dropout = 1 / 10, pe_attrs = Module_init\<rparr>
       200 512 6 7 (1 / 10) 2048
     = ([], Inl AssertionError)"
    using t2[THEN conjunct1] by simp
  have c3: "MultiAttentionBlock_init 512 7 (1 / 10) = ([], Inl AssertionError)"
    using t3[THEN conjunct1] by simp
  have c4: "bind_b (InputEmbedding_init 512 100) (\<lambda>src_embed.
       bind_b (InputEmbedding_init 512 200) (\<lambda>tgt_embed.
       bind_b ([(''torch.zeros'', [10, 512])],
               Inr \<lparr>pe_d_model = 512, pe_seq_length = 10, pe_dropout = 1 / 10,
                    pe_attrs = Module_init\<rparr>) (\<lambda>src_position.
       bind_b ([(''torch.zeros'', [12, 512])],
               Inr \<lparr>pe_d_model = 512, pe_seq_length = 12, pe_dropout = 1 / 10,
                    pe_attrs = Module_init\<rparr>) (\<lambda>tgt_position.
       build_transformer_layers src_embed tgt_embed src_position tgt_position
         200 512 6 7 (1 / 10) 2048))))
     = ([(''nn.Embedding.weight'', [100, 512]), (''nn.Embedding.weight'', [200, 512]),
         (''torch.zeros'', [10, 512]), (''torch.zeros'', [12, 512])],
        Inl AssertionError)"
    using t4[THEN conjunct1] by simp
  note c5 = t4[THEN conjunct2]
  show ?thesis by (intro conjI c2 c3 c4 c5 ok)
qed


section \<open>Properties of the decoder's data flow\<close>

lemma DecoderBlock_forward_unfold:
  "DecoderBlock_forward self encoder_output x tgt_mask src_mask =
     (let x1 = Added x (Dropped (Attended (SelfAttention self)
                 (Normed x) (Normed x) (Normed x) tgt_mask));
          x2 = Added x1 (Dropped (Attended (CrossAttention self)
                 encoder_output encoder_output (Normed x1) src_mask));
          x3 = Added x2 (Dropped (FedForward (FeedForward self) (Normed x2)))
      in x3)"
  by (simp add: DecoderBlock_forward_def ResidualConnection_forward_def Let_def)

text \<open>
  Claim C2.  The claim: in \<^verbatim>\<open>decode(encoder_output, src_mask, tgt, tgt_mask)\<close> the first
  sublayer of each decoder block is self-attention over the decoder's running input,
  masked by \<^verbatim>\<open>tgt_mask\<close>, and the encoder output is used only as the memory of the
  cross-attention.  In the code \<^verbatim>\<open>Decoder.forward\<close> calls
  \<^verbatim>\<open>layer(x, encoder_output, src_mask, tgt_mask)\<close>, while the parameters of
  \<^verbatim>\<open>DecoderBlock.forward\<close> are \<^verbatim>\<open>(encoder_output, x, tgt_mask, src_mask)\<close>: the
  self-attention of the block runs over the encoder output under \<^verbatim>\<open>src_mask\<close>, the
  residual stream starts from the encoder output, and the decoder's running input
  reaches the block only as query and key of its cross-attention, under \<^verbatim>\<open>tgt_mask\<close>.
\<close>

theorem Decoder_forward_self_attention_over_encoder_output:
  "Decoder_forward [layer] x encoder_output src_mask tgt_mask =
     (let x1 = Added encoder_output (Dropped (Attended (SelfAttention layer)
                 (Normed encoder_output) (Normed encoder_output) (Normed encoder_output)
                 src_mask));
          x2 = Added x1 (Dropped (Attended (CrossAttention layer) x x (Normed x1) tgt_mask));
          x3 = Added x2 (Dropped (FedForward (FeedForward layer) (Normed x2)))
      in Normed x3)
   \<and> find_call (SelfAttention 0)
         (Transformer_decode [0] (Input ''encoder_output'') ''src_mask'' (Input ''tgt'')
            ''tgt_mask'')
       = Some (Normed (Input ''encoder_output''), Normed (Input ''encoder_output''),
               Normed (Input ''encoder_output''), ''src_mask'')
   \<and> find_call (SelfAttention 1)
         (Transformer_decode [0, 1] (Input ''encoder_output'') ''src_mask'' (Input ''tgt'')
            ''tgt_mask'')
       = Some (Normed (Input ''encoder_output''), Normed (Input ''encoder_output''),
               Normed (Input ''encoder_output''), ''src_mask'')"
  by (simp add: Decoder_forward_def Transformer_decode_def DecoderBlock_forward_unfold Let_def
        or_else_def)

text \<open>
  Claim C3.  The claim: in the cross-attention sublayer of a decoder block the query is
  the decoder's current (normalised) representation, and key and value are the encoder
  output, under the source mask.  The code calls
  \<^verbatim>\<open>self.cross_attention(encoder_output, encoder_output, x, src_mask)\<close>, and
  \<^verbatim>\<open>MultiAttentionBlock.forward\<close> takes \<^verbatim>\<open>(q, k, v, mask)\<close>: query and key are the
  encoder output, and the decoder's normalised representation is the value.
\<close>

theorem DecoderBlock_forward_cross_attention_arguments:
  "DecoderBlock_forward self encoder_output x tgt_mask src_mask =
     (let x1 = Added x (Dropped (Attended (SelfAttention self)
                 (Normed x) (Normed x) (Normed x) tgt_mask));
          x2 = Added x1 (Dropped (Attended (CrossAttention self)
                 encoder_output encoder_output (Normed x1) src_mask));
          x3 = Added x2 (Dropped (FedForward (FeedForward self) (Normed x2)))
      in x3)
   \<and> find_call (CrossAttention 0)
         (DecoderBlock_forward 0 (Input ''encoder_output'') (Input ''x'') ''tgt_mask''
            ''src_mask'')
       = Some (Input ''encoder_output'', Input ''encoder_output'',
               Normed (Added (Input ''x'') (Dropped (Attended (SelfAttention 0)
                 (Normed (Input ''x'')) (Normed (Input ''x'')) (Normed (Input ''x''))
                 ''tgt_mask''))),
               ''src_mask'')"
  by (simp add: DecoderBlock_forward_def ResidualConnection_forward_def Let_def or_else_def)

section \<open>Properties of layer normalisation\<close>

lemma sum_list_nth: "sum_list xs = (\<Sum>j<length xs. xs ! j)"
  by (simp add: sum_list_sum_nth atLeast0LessThan)

lemma mean_sum: "mean x = (\<Sum>j<length x. x ! j) / real (length x)"
  by (simp add: mean_def sum_list_nth)

lemma sq_dev_sum:
  "sum_list (map (\<lambda>v. (v - m)\<^sup>2) x) = (\<Sum>j<length x. (x ! j - m)\<^sup>2)"
  by (simp add: sum_list_sum_nth atLeast0LessThan)

lemma std_sum:
  assumes "2 \<le> length x"
  shows "std x = sqrt ((\<Sum>j<length x. (x ! j - mean x)\<^sup>2) / real (length x - 1))"
proof -
  have e: "real (length x - 1) = real (length x) - 1"
    using assms by (auto simp: of_nat_diff)
  show ?thesis by (simp only: std_def sq_dev_sum e)
qed

lemma std_population:
  assumes "2 \<le> length x"
  shows "std x = sqrt (real (length x) / real (length x - 1)) * population_std x"
proof -
  let ?n = "real (length x)"
  let ?S = "sum_list (map (\<lambda>v. (v - mean x)\<^sup>2) x)"
  have e: "real (length x - 1) = ?n - 1"
    using assms by (auto simp: of_nat_diff)
  have n: "0 < ?n" "0 < ?n - 1" using assms by auto
  have "?S / (?n - 1) = (?n / (?n - 1)) * (?S / ?n)"
    using n by (simp add: field_simps)
  then have "sqrt (?S / (?n - 1)) = sqrt (?n / (?n - 1)) * sqrt (?S / ?n)"
    by (simp only: real_sqrt_mult)
  then show ?thesis
    by (simp only: std_def population_std_def e)
qed

text \<open>
  \<^verbatim>\<open>LayerNorm.forward\<close> works on the feature vectors of a tensor of any rank, each on
  its own, and keeps the shape.
\<close>

lemma tensor_at_LayerNorm_forward:
  "tensor_at (LayerNorm_forward self t) idx =
     map_option (\<lambda>x. map (\<lambda>v. alpha self * (v - mean x) / (std x + eps self) + gamma self) x)
       (tensor_at t idx)"
proof (induction t idx rule: tensor_at.induct)
  case (4 ts i idx)
  then show ?case by simp
qed simp_all

text \<open>
  Claim C4, amended.  For every input tensor and every feature vector \<open>x\<close> of it (the
  entries along the last dimension at any indices \<open>idx\<close> of the leading dimensions) that
  has at least two entries, \<^verbatim>\<open>LayerNorm.forward\<close> returns at the same indices
  \<open>alpha * (x - mean) / (std + eps) + gamma\<close> entry by entry, where \<open>mean\<close> and \<open>std\<close>
  are taken over that feature vector and \<open>std\<close> is the sample standard deviation: the
  squared deviations are summed and divided by \<open>n - 1\<close>, which makes it
  \<open>sqrt (n / (n - 1))\<close> times the population standard deviation.  The result has a
  feature vector exactly where the input has one, of the same length.
\<close>

theorem LayerNorm_forward_sample_std:
  assumes "tensor_at t idx = Some x" and "2 \<le> length x" and "i < length x"
  shows "\<exists>y. tensor_at (LayerNorm_forward self t) idx = Some y \<and> length y = length x \<and>
     (let \<mu> = (\<Sum>j<length x. x ! j) / real (length x);
          \<sigma> = sqrt ((\<Sum>j<length x. (x ! j - \<mu>)\<^sup>2) / real (length x - 1))
      in y ! i = alpha self * (x ! i - \<mu>) / (\<sigma> + eps self) + gamma self
         \<and> \<sigma> = sqrt (real (length x) / real (length x - 1)) * population_std x)
     \<and> map_option length (tensor_at (LayerNorm_forward self t) idx')
         = map_option length (tensor_at t idx')"
proof -
  let ?y = "map (\<lambda>v. alpha self * (v - mean x) / (std x + eps self) + gamma self) x"
  have "tensor_at (LayerNorm_forward self t) idx = Some ?y"
    by (simp add: tensor_at_LayerNorm_forward assms(1))
  moreover have "length ?y = length x" by simp
  moreover have "?y ! i = alpha self * (x ! i - mean x) / (std x + eps self) + gamma self"
    using assms(3) by simp
  moreover note std_population[OF assms(2)]
  moreover have "map_option length (tensor_at (LayerNorm_forward self t) idx')
         = map_option length (tensor_at t idx')"
    by (cases "tensor_at t idx'") (simp_all add: tensor_at_LayerNorm_forward)
  ultimately show ?thesis
    unfolding Let_def mean_sum[symmetric] std_sum[OF assms(2), symmetric]
    by (intro exI[of _ ?y] conjI)
qed

lemma div_cancel_left: "c \<noteq> 0 \<Longrightarrow> 0 < a \<Longrightarrow> 0 < b \<Longrightarrow> c / a = c / b \<Longrightarrow> a = (b::real)"
  by (simp add: field_simps)

text \<open>
  Claim C4, as stated: \<^verbatim>\<open>LayerNorm.forward\<close> normalises with the population standard
  deviation.  On the feature vector \<open>(0, 4, 8)\<close> the code divides by \<open>4 + eps\<close> (the sample
  standard deviation is \<open>sqrt (32 / 2) = 4\<close>), the formula of the claim by
  \<open>sqrt (32 / 3) + eps\<close>.
\<close>

theorem LayerNorm_forward_population_std_counterexample: "LayerNorm_forward \<lparr>eps = 1 / 10 ^ 6, alpha = 1, gamma = 0\<rparr> (Vec [0, 4, 8])
   \<noteq> spec_LayerNorm_forward \<lparr>eps = 1 / 10 ^ 6, alpha = 1, gamma = 0\<rparr> (Vec [0, 4, 8])"
proof
  assume eq: "LayerNorm_forward \<lparr>eps = 1 / 10 ^ 6, alpha = 1, gamma = 0\<rparr> (Vec [0, 4, 8])
   = spec_LayerNorm_forward \<lparr>eps = 1 / 10 ^ 6, alpha = 1, gamma = 0\<rparr> (Vec [0, 4, 8])"
  have m: "mean [0, 4, 8] = 4" by (simp add: mean_def)
  have s: "std [0, 4, 8] = 4"
  proof -
    have "std [0, 4, 8] = sqrt (4\<^sup>2)" by (simp add: std_def m)
    also have "\<dots> = \<bar>4\<bar>" by (rule real_sqrt_abs)
    finally show ?thesis by simp
  qed
  have p: "population_std [0, 4, 8] = sqrt (32 / 3)" by (simp add: population_std_def m)
  have pos: "0 < sqrt (32 / 3) + 1 / 10 ^ 6" 
    by (rule add_nonneg_pos) simp_all
  from eq have "(0 - 4) / (std [0, 4, 8] + 1 / 10 ^ 6)
      = (0 - 4) / (population_std [0, 4, 8] + 1 / 10 ^ 6)"
    by (simp add: m)
  then have "(- 4) / (4 + 1 / 10 ^ 6) = (- 4) / (sqrt (32 / 3) + 1 / 10 ^ 6 :: real)"
    unfolding s p by simp
  from div_cancel_left[OF _ _ pos this]
  have "4 + 1 / 10 ^ 6 = sqrt (32 / 3) + (1 / 10 ^ 6 :: real)" by simp
  then have "sqrt (32 / 3) = (4::real)" by simp
  then have "(sqrt (32 / 3))\<^sup>2 = (4::real)\<^sup>2" by simp
  then show False by simp
qed

theorem LayerNorm_forward_sample_std_witness:
  "\<exists>y. tensor_at (LayerNorm_forward \<lparr>eps = 1 / 10 ^ 6, alpha = 1, gamma = 0\<rparr>
            (Stack [Stack [Vec [1, 2, 3], Vec [0, 4, 8]]])) [0, 1] = Some y
       \<and> length y = 3 \<and> y ! 0 = - 4 / (4 + 1 / 10 ^ 6)"
proof -
  let ?t = "Stack [Stack [Vec [1, 2, 3], Vec [0, 4, 8]]]"
  let ?ln = "\<lparr>eps = 1 / 10 ^ 6, alpha = 1, gamma = 0\<rparr>"
  have h1: "tensor_at ?t [0, 1] = Some [0, 4, 8]" by simp
  have h2: "2 \<le> length [0, 4, 8 :: real]" by simp
  have h3: "(0::nat) < length [0, 4, 8 :: real]" by simp
  have mu: "(\<Sum>j<length [0, 4, 8 :: real]. [0, 4, 8] ! j) / real (length [0, 4, 8 :: real]) = 4"
    by (simp add: eval_nat_numeral lessThan_Suc)
  have "sqrt ((\<Sum>j<length [0, 4, 8 :: real]. ([0, 4, 8] ! j - 4)\<^sup>2)
              / real (length [0, 4, 8 :: real] - 1)) = sqrt (4\<^sup>2)"
    by (simp add: eval_nat_numeral lessThan_Suc)
  also have "\<dots> = \<bar>4\<bar>" by (rule real_sqrt_abs)
  finally have sg: "sqrt ((\<Sum>j<length [0, 4, 8 :: real]. ([0, 4, 8] ! j - 4)\<^sup>2)
              / real (length [0, 4, 8 :: real] - 1)) = 4" by simp
  from LayerNorm_forward_sample_std[OF h1 h2 h3, of ?ln]
  obtain y where y1: "tensor_at (LayerNorm_forward ?ln ?t) [0, 1] = Some y"
    and y2: "length y = length [0, 4, 8 :: real]"
    and y3: "let \<mu> = (\<Sum>j<length [0, 4, 8 :: real]. [0, 4, 8] ! j)
                       / real (length [0, 4, 8 :: real]);
                 \<sigma> = sqrt ((\<Sum>j<length [0, 4, 8 :: real]. ([0, 4, 8] ! j - \<mu>)\<^sup>2)
                          / real (length [0, 4, 8 :: real] - 1))
             in y ! 0 = alpha ?ln * ([0, 4, 8] ! 0 - \<mu>) / (\<sigma> + eps ?ln) + gamma ?ln
                \<and> \<sigma> = sqrt (real (length [0, 4, 8 :: real])
                             / real (length [0, 4, 8 :: real] - 1)) * population_std [0, 4, 8]"
    by blast
  from y3 have "y ! 0 = alpha ?ln * ([0, 4, 8] ! 0 - 4) / (4 + eps ?ln) + gamma ?ln"
    unfolding Let_def mu sg by (rule conjunct1)
  then have "y ! 0 = - 4 / (4 + 1 / 10 ^ 6)" by simp
  with y1 y2 show ?thesis by auto
qed


section \<open>Properties of the positional-encoding table\<close>

lemma arange2_length: "length (arange2 n) = (n + 1) div 2"
  by (simp add: arange2_def)

lemma arange2_nth: "i < (n + 1) div 2 \<Longrightarrow> arange2 n ! i = 2 * i"
  by (simp add: arange2_def)

lemma setitem_stride2_length: "length (setitem_stride2 pe start v) = length pe"
  by (simp add: setitem_stride2_def)

lemma setitem_stride2_row_length:
  "r < length pe \<Longrightarrow> length (setitem_stride2 pe start v ! r) = length (pe ! r)"
  by (simp add: setitem_stride2_def)

lemma setitem_stride2_nth_inside:
  "r < length pe \<Longrightarrow> c < length (pe ! r) \<Longrightarrow> start \<le> c \<Longrightarrow> even (c - start) \<Longrightarrow>
   setitem_stride2 pe start v ! r ! c =
     (if length (v ! r) = 1 then v ! r ! 0 else v ! r ! ((c - start) div 2))"
  unfolding setitem_stride2_def by (simp del: even_diff_nat)

lemma setitem_stride2_nth_outside:
  "r < length pe \<Longrightarrow> c < length (pe ! r) \<Longrightarrow> \<not> (start \<le> c \<and> even (c - start)) \<Longrightarrow>
   setitem_stride2 pe start v ! r ! c = pe ! r ! c"
  unfolding setitem_stride2_def by (auto simp del: even_diff_nat)

lemma div_term_powr:
  assumes "0 < d"
  shows "real p * exp (real (2 * i) * (- ln 10000 / real d))
         = real p / 10000 powr (real (2 * i) / real d)"
proof -
  have "(10000::real) powr (real (2 * i) / real d) = exp (real (2 * i) / real d * ln 10000)"
    by (simp add: powr_def)
  moreover have "real (2 * i) * (- ln 10000 / real d) = - (real (2 * i) / real d * ln 10000)"
    by simp
  ultimately show ?thesis
    by (simp only: exp_minus divide_inverse)
qed

lemma mul_column_row_nth:
  "p < length col \<Longrightarrow> i < length row \<Longrightarrow> mul_column_row col row ! p ! i = col ! p ! 0 * row ! i"
  by (simp add: mul_column_row_def)

lemma PositionalEncoding_position_nth:
  "p < s \<Longrightarrow> PositionalEncoding_position s ! p = [real p]"
  by (simp add: PositionalEncoding_position_def)

lemma PositionalEncoding_div_term_length:
  "length (PositionalEncoding_div_term d) = (d + 1) div 2"
  by (simp add: PositionalEncoding_div_term_def arange2_length)

lemma PositionalEncoding_div_term_nth:
  assumes "i < (d + 1) div 2"
  shows "PositionalEncoding_div_term d ! i = exp (real (2 * i) * (- ln 10000 / real d))"
proof -
  have "i < length (arange2 d)" using assms by (simp only: arange2_length)
  then have "PositionalEncoding_div_term d ! i
      = exp (real (arange2 d ! i) * (- ln 10000 / real d))"
    unfolding PositionalEncoding_div_term_def by (rule nth_map)
  then show ?thesis by (simp only: arange2_nth[OF assms])
qed

lemma PositionalEncoding_arg_nth:
  assumes "0 < d" "p < s" "i < (d + 1) div 2"
  shows "mul_column_row (PositionalEncoding_position s) (PositionalEncoding_div_term d) ! p ! i
         = real p / 10000 powr (real (2 * i) / real d)"
proof -
  have "mul_column_row (PositionalEncoding_position s) (PositionalEncoding_div_term d) ! p ! i
      = PositionalEncoding_position s ! p ! 0 * PositionalEncoding_div_term d ! i"
    using assms(2,3)
    by (intro mul_column_row_nth)
       (simp_all add: PositionalEncoding_position_def PositionalEncoding_div_term_length)
  also have "\<dots> = real p * exp (real (2 * i) * (- ln 10000 / real d))"
    by (simp only: PositionalEncoding_position_nth[OF assms(2)]
          PositionalEncoding_div_term_nth[OF assms(3)] nth_Cons_0)
  finally show ?thesis by (simp only: div_term_powr[OF assms(1)])
qed

lemma PositionalEncoding_arg_length:
  "length (mul_column_row (PositionalEncoding_position s) (PositionalEncoding_div_term d)) = s"
  by (simp add: mul_column_row_def PositionalEncoding_position_def)

lemma PositionalEncoding_arg_row_length:
  "p < s \<Longrightarrow>
   length (mul_column_row (PositionalEncoding_position s) (PositionalEncoding_div_term d) ! p)
     = (d + 1) div 2"
  by (simp add: mul_column_row_def PositionalEncoding_position_def PositionalEncoding_div_term_def
        arange2_length)

lemma PositionalEncoding_pe_even:
  assumes "0 < d" "even d"
  shows "PositionalEncoding_pe d s = Inr [setitem_stride2
           (setitem_stride2 (replicate s (replicate d 0)) 0
              (map (map sin)
                 (mul_column_row (PositionalEncoding_position s) (PositionalEncoding_div_term d))))
           1
           (map (map cos)
              (mul_column_row (PositionalEncoding_position s) (PositionalEncoding_div_term d)))]"
proof -
  have half: "(d + 1) div 2 = d div 2" using assms(2) by presburger
  have len: "length (PositionalEncoding_div_term d) = d div 2"
    by (simp only: PositionalEncoding_div_term_length half)
  have b: "broadcast_to [s, d div 2] [s, d div 2] = Inr [s, d div 2]"
    by (simp add: broadcast_to_def broadcast_shapes_def and_then_def)
  show ?thesis using assms(1)
    unfolding PositionalEncoding_pe_def Let_def len half b and_then_def
    by simp
qed

lemma PositionalEncoding_pe_entries:
  assumes d: "0 < d" "even d" and p: "p < s" and i: "2 * i + 1 < d"
  defines "A \<equiv> mul_column_row (PositionalEncoding_position s) (PositionalEncoding_div_term d)"
  defines "pe1 \<equiv> setitem_stride2 (replicate s (replicate d 0)) 0 (map (map sin) A)"
  defines "pe2 \<equiv> setitem_stride2 pe1 1 (map (map cos) A)"
  shows "length pe2 = s" "length (pe2 ! p) = d"
    "pe2 ! p ! (2 * i) = sin (real p / 10000 powr (real (2 * i) / real d))"
    "pe2 ! p ! (2 * i + 1) = cos (real p / 10000 powr (real (2 * i) / real d))"
proof -
  have half: "(d + 1) div 2 = d div 2" using d(2) by presburger
  have ih: "i < (d + 1) div 2" using i by linarith
  have lenA: "length A = s" unfolding A_def by (rule PositionalEncoding_arg_length)
  have rowA: "length (A ! p) = d div 2"
    unfolding A_def using PositionalEncoding_arg_row_length[OF p, of d] by (simp only: half)
  have A_i: "A ! p ! i = real p / 10000 powr (real (2 * i) / real d)"
    unfolding A_def by (rule PositionalEncoding_arg_nth[OF d(1) p ih])
  have one: "d div 2 = 1 \<Longrightarrow> i = 0" using i by linarith
  have len1: "length pe1 = s" unfolding pe1_def by (simp add: setitem_stride2_length)
  have row1: "length (pe1 ! p) = d"
    unfolding pe1_def using p by (simp add: setitem_stride2_row_length)
  show "length pe2 = s" unfolding pe2_def by (simp add: setitem_stride2_length len1)
  show "length (pe2 ! p) = d"
    unfolding pe2_def using p by (simp add: setitem_stride2_row_length len1 row1)
  have sinrow: "map (map sin) A ! p = map sin (A ! p)" using p lenA by simp
  have cosrow: "map (map cos) A ! p = map cos (A ! p)" using p lenA by simp
  have ilt: "i < length (A ! p)" using ih by (simp only: rowA half)
  have "pe2 ! p ! (2 * i) = pe1 ! p ! (2 * i)"
    unfolding pe2_def
    by (rule setitem_stride2_nth_outside) (use p i len1 row1 in auto)
  also have "\<dots> = (if length (map (map sin) A ! p) = 1 then map (map sin) A ! p ! 0
                    else map (map sin) A ! p ! ((2 * i - 0) div 2))"
    unfolding pe1_def
    by (rule setitem_stride2_nth_inside) (use p i in auto)
  also have "\<dots> = sin (A ! p ! i)"
    using ilt one by (auto simp: sinrow rowA)
  finally show "pe2 ! p ! (2 * i) = sin (real p / 10000 powr (real (2 * i) / real d))"
    by (simp only: A_i)
  have "pe2 ! p ! (2 * i + 1) = (if length (map (map cos) A ! p) = 1 then map (map cos) A ! p ! 0
                    else map (map cos) A ! p ! ((2 * i + 1 - 1) div 2))"
    unfolding pe2_def
    by (rule setitem_stride2_nth_inside) (use p i len1 row1 in auto)
  also have "\<dots> = cos (A ! p ! i)"
    using ilt one by (auto simp: cosrow rowA)
  finally show "pe2 ! p ! (2 * i + 1) = cos (real p / 10000 powr (real (2 * i) / real d))"
    by (simp only: A_i)
qed

text \<open>
  Claim C9.  For a positive even \<open>d_model\<close> the table is built, and for every position
  \<open>pos < seq_length\<close> and every feature pair \<open>(2i, 2i + 1)\<close> below \<open>d_model\<close> its entries are
  \<open>sin (pos / 10000 ^ (2i / d_model))\<close> and \<open>cos (pos / 10000 ^ (2i / d_model))\<close>; in row
  \<open>0\<close> they are \<open>0\<close> and \<open>1\<close>.  (For an odd \<open>d_model \<ge> 3\<close> the second slice assignment
  raises, and there is no table.)
\<close>

theorem PositionalEncoding_pe_sinusoid:
  assumes "0 < d_model" "even d_model" "pos < seq_length" "2 * i + 1 < d_model"
  shows "\<exists>table. PositionalEncoding_pe d_model seq_length = Inr [table]
      \<and> length table = seq_length \<and> length (table ! pos) = d_model
      \<and> table ! pos ! (2 * i) = sin (real pos / 10000 powr (real (2 * i) / real d_model))
      \<and> table ! pos ! (2 * i + 1) = cos (real pos / 10000 powr (real (2 * i) / real d_model))
      \<and> table ! 0 ! (2 * i) = 0 \<and> table ! 0 ! (2 * i + 1) = 1"
proof -
  let ?A = "mul_column_row (PositionalEncoding_position seq_length)
              (PositionalEncoding_div_term d_model)"
  let ?t = "setitem_stride2
              (setitem_stride2 (replicate seq_length (replicate d_model 0)) 0 (map (map sin) ?A))
              1 (map (map cos) ?A)"
  have z: "0 < seq_length" using assms(3) by simp
  note e = PositionalEncoding_pe_entries[OF assms(1,2) assms(3) assms(4)]
  note e0 = PositionalEncoding_pe_entries[OF assms(1,2) z assms(4)]
  have "?t ! 0 ! (2 * i) = sin (real 0 / 10000 powr (real (2 * i) / real d_model))"
    by (rule e0(3))
  then have s0: "?t ! 0 ! (2 * i) = 0" by simp
  have "?t ! 0 ! (2 * i + 1) = cos (real 0 / 10000 powr (real (2 * i) / real d_model))"
    by (rule e0(4))
  then have c0: "?t ! 0 ! (2 * i + 1) = 1" by simp
  have "PositionalEncoding_pe d_model seq_length = Inr [?t]"
    by (rule PositionalEncoding_pe_even[OF assms(1,2)])
  with e s0 c0 show ?thesis by blast
qed

theorem PositionalEncoding_pe_sinusoid_witness:
  "(0::nat) < 4 \<and> even (4::nat) \<and> (2::nat) < 3 \<and> 2 * (1::nat) + 1 < 4 \<and>
   (\<exists>table. PositionalEncoding_pe 4 3 = Inr [table]
      \<and> length table = 3 \<and> length (table ! 2) = 4
      \<and> table ! 2 ! (2 * 1) = sin (real 2 / 10000 powr (real (2 * 1) / real 4))
      \<and> table ! 2 ! (2 * 1 + 1) = cos (real 2 / 10000 powr (real (2 * 1) / real 4))
      \<and> table ! 0 ! (2 * 1) = 0 \<and> table ! 0 ! (2 * 1 + 1) = 1)"
proof -
  have h1: "(0::nat) < 4" and h2: "even (4::nat)" and h3: "(2::nat) < 3"
    and h4: "2 * (1::nat) + 1 < 4" by simp_all
  from PositionalEncoding_pe_sinusoid[OF h1 h2 h3 h4]
  show ?thesis using h1 h2 h3 h4 by blast
qed

section \<open>Properties of scaled dot-product attention\<close>

lemma is_matrix_nth: "is_matrix r c m \<Longrightarrow> i < r \<Longrightarrow> length (m ! i) = c"
  by (simp add: is_matrix_def)

lemma is_matrix_ncols: "is_matrix r c m \<Longrightarrow> 0 < r \<Longrightarrow> ncols m = c"
  by (cases m) (auto simp: is_matrix_def ncols_def)

lemma matmul_is_matrix: "matmul a b = Inr p \<Longrightarrow> is_matrix (length a) (ncols b) p"
  by (auto simp: matmul_def is_matrix_def split: if_splits)

lemma mat_transpose_is_matrix: "is_matrix (ncols m) (length m) (mat_transpose m)"
  by (auto simp: mat_transpose_def is_matrix_def)

lemma ncols_mat_transpose: "0 < ncols m \<Longrightarrow> ncols (mat_transpose m) = length m"
  using is_matrix_ncols[OF mat_transpose_is_matrix] by blast

lemma is_matrix_map_map: "is_matrix r c m \<Longrightarrow> is_matrix r c (map (map f) m)"
  by (auto simp: is_matrix_def)

lemma mask_fits_eq_zero: "mask_fits (eq_zero m) r c = mask_fits m r c"
  by (simp add: mask_fits_def eq_zero_def list_all_iff)

lemma mask_at_in_set:
  assumes "mask_fits m r c" "i < r" "j < c"
  shows "\<exists>row \<in> set m. mask_at m i j \<in> set row"
proof -
  let ?row = "if length m = 1 then m ! 0 else m ! i"
  have row: "?row \<in> set m" using assms(1,2) by (auto simp: mask_fits_def)
  then have "length ?row = c \<or> length ?row = 1"
    using assms(1) by (simp add: mask_fits_def list_all_iff)
  then have "mask_at m i j \<in> set ?row"
    using assms(3) by (auto simp: mask_at_def Let_def)
  with row show ?thesis by blast
qed

lemma mask_at_eq_zero:
  assumes "mask_fits m r c" "i < r" "j < c"
  shows "mask_at (eq_zero m) i j = (mask_at m i j = 0)"
proof -
  let ?k = "if length m = 1 then 0 else i"
  have k: "?k < length m" using assms(1,2) by (auto simp: mask_fits_def)
  then have "m ! ?k \<in> set m" by simp
  then have len: "length (m ! ?k) = c \<or> length (m ! ?k) = 1"
    using assms(1) by (simp add: mask_fits_def list_all_iff)
  have e: "eq_zero m ! ?k = map (\<lambda>e. e = 0) (m ! ?k)" using k by (simp add: eq_zero_def)
  show ?thesis
    using len assms(3) k unfolding mask_at_def Let_def
    by (auto simp: eq_zero_def)
qed

lemma masked_fill_nothing:
  assumes "is_matrix r c t" "0 < r" "mask_fits bm r c"
    and "\<And>i j. i < r \<Longrightarrow> j < c \<Longrightarrow> \<not> mask_at bm i j"
  shows "masked_fill t bm v = Inr t"
proof -
  have len: "length t = r" using assms(1) by (simp add: is_matrix_def)
  have nc: "ncols t = c" using is_matrix_ncols[OF assms(1,2)] .
  have "map (\<lambda>i. map (\<lambda>j. if mask_at bm i j then v else t ! i ! j) [0..<length (t ! i)])
            [0..<length t] = map (\<lambda>i. t ! i) [0..<length t]"
  proof (rule map_cong[OF refl])
    fix i assume "i \<in> set [0..<length t]"
    then have i: "i < r" using len by simp
    then have li: "length (t ! i) = c" using is_matrix_nth[OF assms(1)] by simp
    have "map (\<lambda>j. if mask_at bm i j then v else t ! i ! j) [0..<length (t ! i)]
          = map (\<lambda>j. t ! i ! j) [0..<length (t ! i)]"
      by (rule map_cong[OF refl]) (use assms(4)[OF i] li in auto)
    then show "map (\<lambda>j. if mask_at bm i j then v else t ! i ! j) [0..<length (t ! i)] = t ! i"
      by (simp add: map_nth)
  qed
  also have "\<dots> = t" by (rule map_nth)
  finally show ?thesis
    using assms(3) by (simp only: masked_fill_def len nc if_True)
qed

text \<open>
  Claim C8.  With a mask that fits the scores and has no zero entry (an all-ones mask in
  particular), \<^verbatim>\<open>attention\<close> returns what it returns with no mask: the fill applies to
  no element.  This holds for every dropout module and also when the call raises.
\<close>

theorem attention_all_ones_mask:
  assumes "query \<noteq> []" "0 < ncols key"
    and "mask_fits m (length query) (length key)"
    and "list_all (list_all (\<lambda>e. e \<noteq> 0)) m"
  shows "attention query key val (Some m) dropout = attention query key val None dropout"
proof (cases "matmul query (mat_transpose key)")
  case (Inl e)
  then show ?thesis by (simp add: attention_def and_then_def Let_def)
next
  case (Inr p)
  let ?s = "map (map (\<lambda>x. x / sqrt (real (ncols query)))) p"
  have "is_matrix (length query) (length key) p"
    using matmul_is_matrix[OF Inr] ncols_mat_transpose[OF assms(2)] by simp
  then have s: "is_matrix (length query) (length key) ?s" by (rule is_matrix_map_map)
  have q: "0 < length query" using assms(1) by simp
  have "masked_fill ?s (eq_zero m) (- 1000000000) = Inr ?s"
  proof (rule masked_fill_nothing[OF s q])
    show "mask_fits (eq_zero m) (length query) (length key)"
      using assms(3) by (simp only: mask_fits_eq_zero)
  next
    fix i j assume ij: "i < length query" "j < length key"
    obtain row where "row \<in> set m" "mask_at m i j \<in> set row"
      using mask_at_in_set[OF assms(3) ij] by blast
    then have "mask_at m i j \<noteq> 0" using assms(4) by (auto simp: list_all_iff)
    then show "\<not> mask_at (eq_zero m) i j"
      by (simp add: mask_at_eq_zero[OF assms(3) ij])
  qed
  then show ?thesis
    by (simp add: attention_def and_then_def Let_def Inr)
qed

theorem attention_all_ones_mask_witness:
  "[[1, 2], [3, 4 :: real]] \<noteq> [] \<and> 0 < ncols [[5, 6], [7, 8 :: real]]
   \<and> mask_fits [[1, 1], [1, 1 :: int]] (length [[1, 2], [3, 4 :: real]]) (length [[5, 6], [7, 8 :: real]])
   \<and> list_all (list_all (\<lambda>e. e \<noteq> 0)) [[1, 1], [1, 1 :: int]]
   \<and> attention [[1, 2], [3, 4]] [[5, 6], [7, 8]] [[1, 0], [0, 1]] (Some [[1, 1], [1, 1]]) None
       = attention [[1, 2], [3, 4]] [[5, 6], [7, 8]] [[1, 0], [0, 1]] None None"
proof -
  have h1: "[[1, 2], [3, 4 :: real]] \<noteq> []" by simp
  have h2: "0 < ncols [[5, 6], [7, 8 :: real]]" by (simp add: ncols_def)
  have h3: "mask_fits [[1, 1], [1, 1 :: int]] (length [[1, 2], [3, 4 :: real]])
              (length [[5, 6], [7, 8 :: real]])"
    by (simp add: mask_fits_def)
  have h4: "list_all (list_all (\<lambda>e. e \<noteq> 0)) [[1, 1], [1, 1 :: int]]" by simp
  from attention_all_ones_mask[OF h1 h2 h3 h4] show ?thesis using h1 h2 h3 h4 by blast
qed


lemma attention_split:
  "attention query key val msk dropout =
     and_then (attention_weights query key msk dropout)
       (\<lambda>p. and_then (matmul p val) (\<lambda>x. Inr (x, p)))"
  by (simp add: attention_def attention_weights_def and_then_def Let_def split: sum.splits)

lemma sum_list_upt: "(\<Sum>k\<leftarrow>[0..<n]. f k) = (\<Sum>k<n. f k)"
  by (simp add: interv_sum_list_conv_sum_set_nat atLeast0LessThan)

lemma matmul_Inr:
  assumes "is_matrix r k a" "length b = k"
  shows "matmul a b =
     Inr (map (\<lambda>row. map (\<lambda>j. \<Sum>t<k. row ! t * b ! t ! j) [0..<ncols b]) a)"
  using assms by (simp add: matmul_def is_matrix_def list_all_iff sum_list_upt)

lemma matmul_nth:
  assumes "is_matrix r k a" "length b = k" "i < r" "j < ncols b" "matmul a b = Inr p"
  shows "p ! i ! j = (\<Sum>t<k. a ! i ! t * b ! t ! j)"
proof -
  have "length a = r" using assms(1) by (simp add: is_matrix_def)
  then show ?thesis
    using assms(3,4,5) unfolding matmul_Inr[OF assms(1,2)] by auto
qed

lemma mat_transpose_nth:
  "t < ncols m \<Longrightarrow> j < length m \<Longrightarrow> mat_transpose m ! t ! j = m ! j ! t"
  by (simp add: mat_transpose_def)

lemma length_mat_transpose: "length (mat_transpose m) = ncols m"
  by (simp add: mat_transpose_def)

text \<open>The scaled scores.\<close>

lemma scores_nth:
  assumes q: "is_matrix n d query" and k: "is_matrix kn d key" and "0 < d" "0 < kn"
  shows "\<exists>p. matmul query (mat_transpose key) = Inr p \<and> is_matrix n kn p \<and>
           (\<forall>i<n. \<forall>j<kn. p ! i ! j = (\<Sum>t<d. query ! i ! t * key ! j ! t))"
proof -
  have nck: "ncols key = d" using is_matrix_ncols[OF k \<open>0 < kn\<close>] .
  have lt: "length (mat_transpose key) = d" by (simp add: length_mat_transpose nck)
  have nct: "ncols (mat_transpose key) = kn"
    using ncols_mat_transpose[of key] nck \<open>0 < d\<close> k by (simp add: is_matrix_def)
  obtain p where p: "matmul query (mat_transpose key) = Inr p"
    using matmul_Inr[OF q lt] by blast
  have shape: "is_matrix n kn p"
    using matmul_is_matrix[OF p] q nct by (simp add: is_matrix_def)
  have "\<forall>i<n. \<forall>j<kn. p ! i ! j = (\<Sum>t<d. query ! i ! t * key ! j ! t)"
  proof (intro allI impI)
    fix i j assume ij: "i < n" "j < kn"
    have "p ! i ! j = (\<Sum>t<d. query ! i ! t * mat_transpose key ! t ! j)"
      using matmul_nth[OF q lt ij(1) _ p] ij(2) nct by simp
    also have "\<dots> = (\<Sum>t<d. query ! i ! t * key ! j ! t)"
    proof (rule sum.cong[OF refl])
      fix t assume "t \<in> {..<d}"
      then have "mat_transpose key ! t ! j = key ! j ! t"
        using mat_transpose_nth[of t key j] nck ij(2) k by (simp add: is_matrix_def)
      then show "query ! i ! t * mat_transpose key ! t ! j = query ! i ! t * key ! j ! t"
        by simp
    qed
    finally show "p ! i ! j = (\<Sum>t<d. query ! i ! t * key ! j ! t)" .
  qed
  with p shape show ?thesis by blast
qed

lemma mask_at_full:
  assumes "is_matrix r c m" "i < r" "j < c"
  shows "mask_at m i j = m ! i ! j"
proof -
  have len: "length m = r" and row: "length (m ! i) = c"
    using assms(1,2) by (simp_all add: is_matrix_def)
  have i0: "length m = 1 \<Longrightarrow> i = 0" using assms(2) len by simp
  have j0: "c = 1 \<Longrightarrow> j = 0" using assms(3) by simp
  show ?thesis
    unfolding mask_at_def Let_def using i0 j0 row by auto
qed

lemma is_matrix_mask_fits: "is_matrix r c m \<Longrightarrow> mask_fits m r c"
  by (simp add: is_matrix_def mask_fits_def list_all_iff)

lemma masked_fill_Inr:
  assumes "is_matrix r c t" "0 < r" "mask_fits bm r c"
  shows "masked_fill t bm v =
     Inr (map (\<lambda>i. map (\<lambda>j. if mask_at bm i j then v else t ! i ! j) [0..<c]) [0..<r])"
proof -
  have len: "length t = r" using assms(1) by (simp add: is_matrix_def)
  have nc: "ncols t = c" using is_matrix_ncols[OF assms(1,2)] .
  have "map (\<lambda>i. map (\<lambda>j. if mask_at bm i j then v else t ! i ! j) [0..<length (t ! i)])
            [0..<r]
        = map (\<lambda>i. map (\<lambda>j. if mask_at bm i j then v else t ! i ! j) [0..<c]) [0..<r]"
    by (rule map_cong[OF refl]) (use is_matrix_nth[OF assms(1)] in simp)
  then show ?thesis
    using assms(3) by (simp only: masked_fill_def len nc if_True)
qed

lemma softmax_nth:
  "j < length xs \<Longrightarrow> softmax xs ! j = exp (xs ! j) / (\<Sum>t<length xs. exp (xs ! t))"
  by (simp add: softmax_def sum_list_sum_nth atLeast0LessThan)

lemma length_softmax: "length (softmax xs) = length xs"
  by (simp add: softmax_def)

lemma attention_weights_masked:
  assumes q: "is_matrix n d query" and k: "is_matrix kn d key" and m: "is_matrix n kn m"
    and pos: "0 < d" "0 < n" "0 < kn"
  shows "\<exists>p. attention_weights query key (Some m) None = Inr p \<and> is_matrix n kn p \<and>
     (\<forall>i<n. \<forall>j<kn. p ! i ! j =
        exp (if m ! i ! j = 0 then - 1000000000
             else (\<Sum>t<d. query ! i ! t * key ! j ! t) / sqrt (real d))
        / (\<Sum>j'<kn. exp (if m ! i ! j' = 0 then - 1000000000
             else (\<Sum>t<d. query ! i ! t * key ! j' ! t) / sqrt (real d))))"
proof -
  let ?sc = "\<lambda>i j. if m ! i ! j = 0 then - 1000000000
             else (\<Sum>t<d. query ! i ! t * key ! j ! t) / sqrt (real d)"
  obtain pr where pr: "matmul query (mat_transpose key) = Inr pr" "is_matrix n kn pr"
    "\<forall>i<n. \<forall>j<kn. pr ! i ! j = (\<Sum>t<d. query ! i ! t * key ! j ! t)"
    using scores_nth[OF q k pos(1,3)] by blast
  have ncq: "ncols query = d" using is_matrix_ncols[OF q pos(2)] .
  let ?s = "map (map (\<lambda>x. x / sqrt (real d))) pr"
  have s: "is_matrix n kn ?s" using pr(2) by (rule is_matrix_map_map)
  have s_nth: "?s ! i ! j = (\<Sum>t<d. query ! i ! t * key ! j ! t) / sqrt (real d)"
    if "i < n" "j < kn" for i j
    using that pr(2,3) by (simp add: is_matrix_def)
  have fits: "mask_fits (eq_zero m) n kn"
    using is_matrix_mask_fits[OF m] by (simp only: mask_fits_eq_zero)
  define f where "f = map (\<lambda>i. map (\<lambda>j. if mask_at (eq_zero m) i j then - 1000000000
                   else ?s ! i ! j) [0..<kn]) [0..<n]"
  have mf: "masked_fill ?s (eq_zero m) (- 1000000000) = Inr f"
    unfolding f_def by (rule masked_fill_Inr[OF s pos(2) fits])
  have f_len: "length f = n" "\<And>i. i < n \<Longrightarrow> length (f ! i) = kn"
    by (simp_all add: f_def)
  have f_nth: "f ! i ! j = ?sc i j" if "i < n" "j < kn" for i j
  proof -
    have "mask_at (eq_zero m) i j = (m ! i ! j = 0)"
      using mask_at_eq_zero[OF is_matrix_mask_fits[OF m] that] mask_at_full[OF m that] by simp
    moreover have "f ! i ! j = (if mask_at (eq_zero m) i j then - 1000000000 else ?s ! i ! j)"
      using that by (simp add: f_def)
    ultimately show ?thesis using s_nth[OF that] by simp
  qed
  define p where "p = map softmax f"
  have w: "attention_weights query key (Some m) None = Inr p"
    by (simp add: attention_weights_def Let_def and_then_def pr(1) ncq mf p_def)
  have shape: "is_matrix n kn p"
    using f_len by (auto simp: is_matrix_def length_softmax p_def in_set_conv_nth)
  have "\<forall>i<n. \<forall>j<kn. p ! i ! j = exp (?sc i j) / (\<Sum>j'<kn. exp (?sc i j'))"
  proof (intro allI impI)
    fix i j assume ij: "i < n" "j < kn"
    have "p ! i ! j = softmax (f ! i) ! j" using ij(1) f_len(1) by (simp add: p_def)
    also have "\<dots> = exp (f ! i ! j) / (\<Sum>t<kn. exp (f ! i ! t))"
      using softmax_nth[of j "f ! i"] ij f_len(2)[OF ij(1)] by simp
    also have "\<dots> = exp (?sc i j) / (\<Sum>j'<kn. exp (?sc i j'))"
    proof -
      have "(\<Sum>t<kn. exp (f ! i ! t)) = (\<Sum>j'<kn. exp (?sc i j'))"
        by (rule sum.cong[OF refl]) (use f_nth[OF ij(1)] in simp)
      then show ?thesis using f_nth[OF ij] by simp
    qed
    finally show "p ! i ! j = exp (?sc i j) / (\<Sum>j'<kn. exp (?sc i j'))" .
  qed
  with w shape show ?thesis by blast
qed

lemma upt_2: "[0..<2] = [0, Suc 0]"
  by (simp add: numeral_2_eq_2)

lemma causal_example_weights:
  "attention_weights [[100000], [100000]] [[- 20000], [- 20000]] (Some [[1, 0], [1, 1]]) None
   = Inr [[exp (- 2000000000) / (exp (- 2000000000) + exp (- 1000000000)),
           exp (- 1000000000) / (exp (- 2000000000) + exp (- 1000000000))],
          [exp (- 2000000000) / (exp (- 2000000000) + exp (- 2000000000)),
           exp (- 2000000000) / (exp (- 2000000000) + exp (- 2000000000))]]"
  by (simp add: attention_weights_def Let_def and_then_def matmul_def mat_transpose_def ncols_def
        masked_fill_def mask_fits_def mask_at_def eq_zero_def softmax_def upt_2)

lemma causal_example_output:
  "attention_output_at [[100000], [100000]] [[- 20000], [- 20000]] [[0], [v]]
     (Some [[1, 0], [1, 1]]) None 0
   = Inr [exp (- 1000000000) / (exp (- 2000000000) + exp (- 1000000000)) * v]"
  by (simp add: attention_output_at_def attention_split causal_example_weights and_then_def
        matmul_def ncols_def upt_2)

text \<open>
  Claim C7, as stated: under a causal mask two value tensors that agree on the positions
  \<open>0..i\<close> give identical outputs at position \<open>i\<close>.  The fill value is the finite
  \<^verbatim>\<open>-1e9\<close>, so a masked position keeps the weight \<open>exp (-1e9) / Z\<close>.  With
  one-dimensional queries \<open>100000\<close> and keys \<open>-20000\<close> every unmasked score is \<open>-2e9\<close>,
  below the fill value: at position \<open>0\<close> the masked position \<open>1\<close> carries almost all of
  the weight, and the output at position \<open>0\<close> follows the value at position \<open>1\<close>.  (In
  single-precision arithmetic the weights of this row are exactly \<open>0\<close> and \<open>1\<close>, and the
  two outputs are \<open>0\<close> and \<open>1\<close>.)
\<close>

theorem attention_causal_mask_counterexample:
  "[[0], [0 :: real]] ! 0 = [[0], [1 :: real]] ! 0
   \<and> attention_output_at [[100000], [100000]] [[- 20000], [- 20000]] [[0], [0]]
         (Some [[1, 0], [1, 1]]) None 0 = Inr [0]
   \<and> attention_output_at [[100000], [100000]] [[- 20000], [- 20000]] [[0], [1]]
         (Some [[1, 0], [1, 1]]) None 0
       = Inr [exp (- 1000000000) / (exp (- 2000000000) + exp (- 1000000000))]
   \<and> attention_output_at [[100000], [100000]] [[- 20000], [- 20000]] [[0], [0]]
         (Some [[1, 0], [1, 1]]) None 0
       \<noteq> attention_output_at [[100000], [100000]] [[- 20000], [- 20000]] [[0], [1]]
         (Some [[1, 0], [1, 1]]) None 0"
proof -
  have pos: "0 < exp (- 1000000000) / (exp (- 2000000000) + exp (- 1000000000 :: real))"
    by (intro divide_pos_pos add_pos_pos exp_gt_zero)
  have den: "exp (- 2000000000) + exp (- 1000000000 :: real) \<noteq> 0"
    using add_pos_pos[OF exp_gt_zero exp_gt_zero, of "- 2000000000 :: real" "- 1000000000"]
    by simp
  show ?thesis
    using pos den by (simp add: causal_example_output)
qed

lemma matmul_nth_sum:
  assumes "is_matrix r k a" "is_matrix k c b" "0 < k" "i < r" "j < c"
  shows "\<exists>p. matmul a b = Inr p \<and> p ! i ! j = (\<Sum>t<k. a ! i ! t * b ! t ! j)"
proof -
  have lb: "length b = k" using assms(2) by (simp add: is_matrix_def)
  have nc: "ncols b = c" using is_matrix_ncols[OF assms(2,3)] .
  obtain p where p: "matmul a b = Inr p" using matmul_Inr[OF assms(1) lb] by blast
  from matmul_nth[OF assms(1) lb assms(4) _ p] assms(5) nc
  have "p ! i ! j = (\<Sum>t<k. a ! i ! t * b ! t ! j)" by simp
  with p show ?thesis by blast
qed

lemma attention_causal_mask_bound_None:
  assumes q: "is_matrix n d query" and k: "is_matrix n d key"
    and v1: "is_matrix n dv v1" and v2: "is_matrix n dv v2" and m: "is_matrix n n m"
    and d: "0 < d" and i: "i < n" and c: "c < dv"
    and causal: "\<forall>j<n. (m ! i ! j = 0) = (i < j)"
    and agree: "\<forall>j\<le>i. v1 ! j = v2 ! j"
  shows "\<exists>o1 o2 p.
      attention query key v1 (Some m) None = Inr (o1, p)
    \<and> attention query key v2 (Some m) None = Inr (o2, p)
    \<and> \<bar>o1 ! i ! c - o2 ! i ! c\<bar>
        \<le> exp (- 1000000000 - (\<Sum>t<d. query ! i ! t * key ! i ! t) / sqrt (real d))
          * (\<Sum>j\<in>{i<..<n}. \<bar>v1 ! j ! c - v2 ! j ! c\<bar>)"
proof -
  have n: "0 < n" using i by simp
  let ?sc = "\<lambda>j. if m ! i ! j = 0 then - 1000000000
             else (\<Sum>t<d. query ! i ! t * key ! j ! t) / sqrt (real d)"
  let ?sii = "(\<Sum>t<d. query ! i ! t * key ! i ! t) / sqrt (real d)"
  let ?Z = "\<Sum>j'<n. exp (?sc j')"
  let ?B = "exp (- 1000000000 - ?sii)"
  obtain p where p: "attention_weights query key (Some m) None = Inr p" "is_matrix n n p"
    and p_nth: "\<forall>j<n. p ! i ! j = exp (?sc j) / ?Z"
    using attention_weights_masked[OF q k m d n n] i by blast
  obtain o1 where o1: "matmul p v1 = Inr o1" "o1 ! i ! c = (\<Sum>t<n. p ! i ! t * v1 ! t ! c)"
    using matmul_nth_sum[OF p(2) v1 n i c] by blast
  obtain o2 where o2: "matmul p v2 = Inr o2" "o2 ! i ! c = (\<Sum>t<n. p ! i ! t * v2 ! t ! c)"
    using matmul_nth_sum[OF p(2) v2 n i c] by blast
  have a1: "attention query key v1 (Some m) None = Inr (o1, p)"
    by (simp add: attention_split p(1) o1(1) and_then_def)
  have a2: "attention query key v2 (Some m) None = Inr (o2, p)"
    by (simp add: attention_split p(1) o2(1) and_then_def)
  have sii: "?sc i = ?sii" using causal i by simp
  have Z: "exp ?sii \<le> ?Z"
  proof -
    have "exp (?sc i) \<le> ?Z"
      by (rule member_le_sum) (use i in auto)
    then show ?thesis by (simp only: sii)
  qed
  have Zpos: "0 < ?Z" using Z exp_gt_zero[of ?sii] by linarith
  have p_nonneg: "0 \<le> p ! i ! j" if "j < n" for j
    using p_nth that Zpos by (simp add: divide_nonneg_pos)
  have p_future: "p ! i ! j \<le> ?B" if "j < n" "i < j" for j
  proof -
    have "?sc j = - 1000000000" using causal that by simp
    then have "p ! i ! j = exp (- 1000000000) / ?Z" using p_nth that(1) by simp
    also have "\<dots> \<le> exp (- 1000000000) / exp ?sii"
      by (rule divide_left_mono) (use Z Zpos in \<open>simp_all add: mult_pos_pos\<close>)
    also have "\<dots> = ?B" by (simp only: exp_diff)
    finally show ?thesis .
  qed
  let ?D = "\<lambda>j. v1 ! j ! c - v2 ! j ! c"
  have "o1 ! i ! c - o2 ! i ! c = (\<Sum>j<n. p ! i ! j * ?D j)"
    by (simp only: o1(2) o2(2) sum_subtractf[symmetric] right_diff_distrib)
  also have "\<dots> = (\<Sum>j\<in>{i<..<n}. p ! i ! j * ?D j)"
  proof (rule sum.mono_neutral_right)
    show "finite {..<n}" by simp
    show "{i<..<n} \<subseteq> {..<n}" by auto
    show "\<forall>j\<in>{..<n} - {i<..<n}. p ! i ! j * ?D j = 0"
    proof
      fix j assume "j \<in> {..<n} - {i<..<n}"
      then have "j \<le> i" by auto
      then have "v1 ! j = v2 ! j" using agree by simp
      then show "p ! i ! j * ?D j = 0" by simp
    qed
  qed
  finally have diff: "o1 ! i ! c - o2 ! i ! c = (\<Sum>j\<in>{i<..<n}. p ! i ! j * ?D j)" .
  have "\<bar>o1 ! i ! c - o2 ! i ! c\<bar> \<le> (\<Sum>j\<in>{i<..<n}. \<bar>p ! i ! j * ?D j\<bar>)"
    unfolding diff by (rule sum_abs)
  also have "\<dots> \<le> (\<Sum>j\<in>{i<..<n}. ?B * \<bar>?D j\<bar>)"
  proof (rule sum_mono)
    fix j assume "j \<in> {i<..<n}"
    then have j: "j < n" "i < j" by auto
    have "\<bar>p ! i ! j * ?D j\<bar> = p ! i ! j * \<bar>?D j\<bar>"
      using p_nonneg[OF j(1)] by (simp add: abs_mult)
    also have "\<dots> \<le> ?B * \<bar>?D j\<bar>"
      by (rule mult_right_mono[OF p_future[OF j]]) simp
    finally show "\<bar>p ! i ! j * ?D j\<bar> \<le> ?B * \<bar>?D j\<bar>" .
  qed
  also have "\<dots> = ?B * (\<Sum>j\<in>{i<..<n}. \<bar>?D j\<bar>)"
    by (simp only: sum_distrib_left)
  finally have "\<bar>o1 ! i ! c - o2 ! i ! c\<bar> \<le> ?B * (\<Sum>j\<in>{i<..<n}. \<bar>?D j\<bar>)" .
  with a1 a2 show ?thesis by blast
qed

lemma attention_identity_dropout:
  "attention query key val msk (Some (\<lambda>p. p)) = attention query key val msk None"
  by (simp add: attention_def)

text \<open>
  Claim C7, amended.  Under a mask that is causal in row \<open>i\<close>, with dropout disabled
  (no dropout module, or the identity of evaluation mode), the attention weights do not
  depend on the value tensor, and for two value tensors that agree on the positions
  \<open>0..i\<close> the outputs at position \<open>i\<close> differ, in each feature \<open>c\<close>, by at most
  \<open>exp (-1e9 - s) * (\<Sum>j>i. |v1[j, c] - v2[j, c]|)\<close>, where \<open>s\<close> is the scaled score of
  position \<open>i\<close> with itself.  The outputs are identical only as far as that factor
  vanishes (in floating-point arithmetic it underflows to \<open>0\<close> unless \<open>s\<close> is of the order
  of \<open>-1e9\<close>).
\<close>

theorem attention_causal_mask_bound:
  assumes "is_matrix n d query" and "is_matrix n d key"
    and "is_matrix n dv v1" and "is_matrix n dv v2" and "is_matrix n n m"
    and "0 < d" and "i < n" and "c < dv"
    and "\<forall>j<n. (m ! i ! j = 0) = (i < j)"
    and "\<forall>j\<le>i. v1 ! j = v2 ! j"
    and "dropout = None \<or> dropout = Some (\<lambda>p. p)"
  shows "\<exists>o1 o2 p.
      attention query key v1 (Some m) dropout = Inr (o1, p)
    \<and> attention query key v2 (Some m) dropout = Inr (o2, p)
    \<and> \<bar>o1 ! i ! c - o2 ! i ! c\<bar>
        \<le> exp (- 1000000000 - (\<Sum>t<d. query ! i ! t * key ! i ! t) / sqrt (real d))
          * (\<Sum>j\<in>{i<..<n}. \<bar>v1 ! j ! c - v2 ! j ! c\<bar>)"
proof -
  have "attention query key v (Some m) dropout = attention query key v (Some m) None" for v
    using assms(11) by (auto simp: attention_identity_dropout)
  then show ?thesis
    using attention_causal_mask_bound_None[OF assms(1-10)] by simp
qed

theorem attention_causal_mask_bound_witness:
  "\<exists>o1 o2 p.
      attention [[1], [1]] [[1], [1]] [[0], [0]] (Some [[1, 0], [1, 1]]) None = Inr (o1, p)
    \<and> attention [[1], [1]] [[1], [1]] [[0], [1]] (Some [[1, 0], [1, 1]]) None = Inr (o2, p)
    \<and> \<bar>o1 ! 0 ! 0 - o2 ! 0 ! 0\<bar>
        \<le> exp (- 1000000000 - (\<Sum>t<1. [[1], [1 :: real]] ! 0 ! t * [[1], [1 :: real]] ! 0 ! t)
                                / sqrt (real 1))
          * (\<Sum>j\<in>{0<..<2}. \<bar>[[0], [0 :: real]] ! j ! 0 - [[0], [1 :: real]] ! j ! 0\<bar>)"
proof -
  have h1: "is_matrix 2 1 [[1], [1 :: real]]" by (simp add: is_matrix_def)
  have h3: "is_matrix 2 1 [[0], [0 :: real]]" by (simp add: is_matrix_def)
  have h4: "is_matrix 2 1 [[0], [1 :: real]]" by (simp add: is_matrix_def)
  have h5: "is_matrix 2 2 [[1, 0], [1, 1 :: int]]" by (simp add: is_matrix_def)
  have h6: "(0::nat) < 1" and h7: "(0::nat) < 2" by simp_all
  have h9: "\<forall>j<2. ([[1, 0], [1, 1 :: int]] ! 0 ! j = 0) = (0 < j)"
    by (auto simp: less_2_cases_iff)
  have h10: "\<forall>j\<le>0. [[0], [0 :: real]] ! j = [[0], [1 :: real]] ! j" by simp
  have h11: "(None :: (matrix \<Rightarrow> matrix) option) = None \<or> None = Some (\<lambda>p. p)" by simp
  from attention_causal_mask_bound[OF h1 h1 h3 h4 h5 h6 h7 h6 h9 h10 h11]
  show ?thesis .
qed


section \<open>Properties of attention on the store\<close>

lemma keeps_bind:
  assumes "keeps n P m" "\<And>a. P a \<Longrightarrow> keeps n Q (f a)"
  shows "keeps n Q (st_bind m f)"
  unfolding keeps_def
proof (intro allI impI)
  fix st :: store assume n: "n \<le> length st"
  obtain r st1 where m: "m st = (r, st1)" by (cases "m st")
  from assms(1) n m have 1: "n \<le> length st1" "take n st1 = take n st"
    "case r of Inl e \<Rightarrow> True | Inr a \<Rightarrow> P a"
    by (auto simp: keeps_def)
  show "case st_bind m f st of (r, st') \<Rightarrow>
          n \<le> length st' \<and> take n st' = take n st \<and> (case r of Inl e \<Rightarrow> True | Inr a \<Rightarrow> Q a)"
  proof (cases r)
    case (Inl e)
    then show ?thesis using 1 m by (simp add: st_bind_def)
  next
    case (Inr a)
    then have "P a" using 1(3) by simp
    from assms(2)[OF this] 1(1) have
      "case f a st1 of (r, st') \<Rightarrow>
          n \<le> length st' \<and> take n st' = take n st1 \<and> (case r of Inl e \<Rightarrow> True | Inr a \<Rightarrow> Q a)"
      by (simp add: keeps_def)
    then show ?thesis using Inr m 1(2) by (auto simp: st_bind_def)
  qed
qed

lemma keeps_ret: "P a \<Longrightarrow> keeps n P (st_ret a)"
  by (simp add: keeps_def st_ret_def)

lemma keeps_read: "keeps n (\<lambda>_. True) (st_read r)"
  by (simp add: keeps_def st_read_def split: sum.splits)

lemma keeps_lift: "keeps n (\<lambda>_. True) (st_lift r)"
  by (simp add: keeps_def st_lift_def split: sum.splits)

lemma keeps_new: "keeps n (\<lambda>t. n \<le> storage_of t) (st_new s)"
  by (simp add: keeps_def st_new_def)

lemma keeps_weaken: "keeps n P m \<Longrightarrow> (\<And>a. P a \<Longrightarrow> Q a) \<Longrightarrow> keeps n Q m"
  by (auto simp: keeps_def split: prod.splits sum.splits)

lemma keeps_write:
  "n \<le> storage_of t \<Longrightarrow> keeps n (\<lambda>r. n \<le> storage_of r) (\<lambda>st. (Inr t, write_reals t m st))"
  by (simp add: keeps_def write_reals_def)

lemma keeps_masked_fill_st:
  assumes "n \<le> storage_of t"
  shows "keeps n (\<lambda>r. n \<le> storage_of r) (masked_fill_st t msk v)"
  unfolding masked_fill_st_def
  by (intro keeps_bind[OF keeps_read] keeps_bind[OF keeps_lift] keeps_write assms)

lemma keeps_attention_st: "keeps n (\<lambda>_. True) (attention_st query key val msk dropout)"
  unfolding attention_st_def Let_def
  apply (rule keeps_bind[OF keeps_read])
  apply (rule keeps_bind[OF keeps_read])
  apply (rule keeps_bind[OF keeps_lift])
  apply (rule keeps_bind[OF keeps_new])
  apply (rule keeps_bind[OF keeps_new])
  apply (rule keeps_bind[where P = "\<lambda>r. n \<le> storage_of r"])
  subgoal for q k_t product r0 attention_score
    apply (cases msk)
     apply (simp add: keeps_ret)
    apply simp
    apply (rule keeps_bind[OF keeps_read])
    apply (rule keeps_bind[OF keeps_new])
    apply (rule keeps_masked_fill_st)
    apply assumption
    done
  apply (rule keeps_bind[OF keeps_read])
  apply (rule keeps_bind[OF keeps_new])
  apply (rule keeps_bind[where P = "\<lambda>_. True"])
  subgoal
    apply (cases dropout)
     apply (simp add: keeps_ret)
    apply simp
    apply (rule keeps_bind[OF keeps_read])
    apply (rule keeps_weaken[OF keeps_new])
    apply simp
    done
  apply (rule keeps_bind[OF keeps_read])
  apply (rule keeps_bind[OF keeps_read])
  apply (rule keeps_bind[OF keeps_lift])
  apply (rule keeps_bind[OF keeps_new])
  apply (rule keeps_ret)
  apply simp
  done

lemma attention_st_frame:
  assumes "a < length st"
  shows "length st \<le> length (snd (attention_st query key val msk dropout st))
       \<and> snd (attention_st query key val msk dropout st) ! a = st ! a"
proof -
  obtain r st' where r: "attention_st query key val msk dropout st = (r, st')"
    by (cases "attention_st query key val msk dropout st")
  from keeps_attention_st[of "length st" query key val msk dropout] r
  have 1: "length st \<le> length st'" "take (length st) st' = take (length st) st"
    by (auto simp: keeps_def)
  have "st' ! a = take (length st) st' ! a" using assms by simp
  also have "\<dots> = st ! a" using 1(2) by simp
  finally show ?thesis using 1(1) r by simp
qed

lemma read_reals_same:
  "storage_of t < length st \<Longrightarrow> length st \<le> length st' \<Longrightarrow> st' ! storage_of t = st ! storage_of t
   \<Longrightarrow> read_reals t st' = read_reals t st"
  by (simp add: read_reals_def)

lemma read_ints_same:
  "storage_of t < length st \<Longrightarrow> length st \<le> length st' \<Longrightarrow> st' ! storage_of t = st ! storage_of t
   \<Longrightarrow> read_ints t st' = read_ints t st"
  by (simp add: read_ints_def)

text \<open>
  Claim C10.  A call of \<^verbatim>\<open>attention\<close> changes no storage that existed before the
  call, whether it returns or raises: the storage that \<^verbatim>\<open>masked_fill_\<close> writes is the
  one allocated for the scaled scores during the call.  In particular the tensors
  \<^verbatim>\<open>query\<close>, \<^verbatim>\<open>key\<close>, \<^verbatim>\<open>value\<close> and \<^verbatim>\<open>mask\<close> hold afterwards what they held
  before.
\<close>

theorem attention_st_inputs_unchanged:
  assumes "storage_of query < length st" and "storage_of key < length st"
    and "storage_of val < length st" and "\<forall>m. msk = Some m \<longrightarrow> storage_of m < length st"
  shows "(\<forall>a<length st. snd (attention_st query key val msk dropout st) ! a = st ! a)
       \<and> read_reals query (snd (attention_st query key val msk dropout st)) = read_reals query st
       \<and> read_reals key (snd (attention_st query key val msk dropout st)) = read_reals key st
       \<and> read_reals val (snd (attention_st query key val msk dropout st)) = read_reals val st
       \<and> (\<forall>m. msk = Some m \<longrightarrow>
            read_ints m (snd (attention_st query key val msk dropout st)) = read_ints m st)"
  using assms
  by (auto simp: attention_st_frame intro!: read_reals_same read_ints_same)

lemma read_reals_append:
  "storage_of t < length st \<Longrightarrow> read_reals t (st @ xs) = read_reals t st"
  by (simp add: read_reals_def nth_append)

lemma read_reals_literal:
  "read_reals \<lparr>storage_of = n, transposed = False\<rparr> st =
     (if n < length st
      then (case st ! n of Reals m \<Rightarrow> Inr m | Ints m \<Rightarrow> Inl RuntimeError
            | Bools m \<Rightarrow> Inl RuntimeError)
      else Inl RuntimeError)"
  by (simp add: read_reals_def split: storage.splits)

lemma read_bools_literal:
  "read_bools \<lparr>storage_of = n, transposed = False\<rparr> st =
     (if n < length st
      then (case st ! n of Bools m \<Rightarrow> Inr m | Ints m \<Rightarrow> Inl RuntimeError
            | Reals m \<Rightarrow> Inl RuntimeError)
      else Inl RuntimeError)"
  by (simp add: read_bools_def split: storage.splits)

lemma write_reals_literal:
  "write_reals \<lparr>storage_of = n, transposed = False\<rparr> m st = st[n := Reals m]"
  by (simp add: write_reals_def)

lemma read_ints_append:
  "storage_of t < length st \<Longrightarrow> read_ints t (st @ xs) = read_ints t st"
  by (simp add: read_ints_def nth_append)

lemma st_bind_read: "st_bind (st_read r) f st = (case r st of Inl e \<Rightarrow> (Inl e, st) | Inr a \<Rightarrow> f a st)"
  by (simp add: st_bind_def st_read_def split: sum.splits)

lemma st_bind_lift: "st_bind (st_lift r) f st = (case r of Inl e \<Rightarrow> (Inl e, st) | Inr a \<Rightarrow> f a st)"
  by (simp add: st_bind_def st_lift_def split: sum.splits)

lemma st_bind_new:
  "st_bind (st_new s) f st = f \<lparr>storage_of = length st, transposed = False\<rparr> (st @ [s])"
  by (simp add: st_bind_def st_new_def)

lemma st_bind_ret: "st_bind (st_ret a) f st = f a st"
  by (simp add: st_bind_def st_ret_def)

lemma list_update_append_right:
  "length st \<le> n \<Longrightarrow> (st @ xs)[n := s] = st @ xs[n - length st := s]"
  by (simp add: list_update_append)

lemma st_bind_update: "st_bind (\<lambda>s. (Inr a, g s)) f st = f a (g st)"
  by (simp add: st_bind_def)

lemma st_bind_assoc: "st_bind (st_bind m f) g = st_bind m (\<lambda>a. st_bind (f a) g)"
  by (auto simp: st_bind_def fun_eq_iff split: prod.splits sum.splits)

lemma read_reals_transpose_view:
  "\<not> transposed t \<Longrightarrow> read_reals t st = Inr m \<Longrightarrow>
   read_reals (transpose_view t) st = Inr (mat_transpose m)"
  by (auto simp: read_reals_def transpose_view_def split: if_splits storage.splits)

lemma attention_st_computes_view:
  assumes "read_reals query st = Inr q"
    and "read_reals (transpose_view key) st = Inr (mat_transpose k)"
    and "read_reals val st = Inr v"
    and "rel_option (\<lambda>r m. read_ints r st = Inr m) msk mv"
  shows "case attention q k v mv dropout of
           Inl e \<Rightarrow> fst (attention_st query key val msk dropout st) = Inl e
         | Inr (x, p) \<Rightarrow>
             (\<exists>rx rp. fst (attention_st query key val msk dropout st) = Inr (rx, rp)
                \<and> read_reals rx (snd (attention_st query key val msk dropout st)) = Inr x
                \<and> read_reals rp (snd (attention_st query key val msk dropout st)) = Inr p)"
proof -
  have v: "storage_of val < length st"
    using assms(3) by (auto simp: read_reals_def split: if_splits)
  have m: "storage_of r < length st" if "msk = Some r" for r
    using assms(4) that by (auto simp: read_ints_def option.rel_sel split: if_splits)
  show ?thesis
    using assms v m
    by (cases dropout; cases msk; cases mv)
       (auto simp: attention_def attention_st_def masked_fill_st_def
          list_update_append_right st_bind_assoc st_bind_update st_bind_read st_bind_lift st_bind_new st_bind_ret st_ret_def st_new_def
          and_then_def Let_def read_reals_append read_ints_append
          read_reals_literal read_bools_literal write_reals_literal nth_append
          split: sum.splits)
qed

text \<open>
  The store model computes what \<open>attention\<close> computes: on tensors that hold \<open>q\<close>, \<open>k\<close>,
  \<open>v\<close> and the mask, the call raises the same exception or returns two tensors that hold
  the two results of \<open>attention\<close>.
\<close>

lemma attention_st_computes:
  assumes "read_reals query st = Inr q"
    and "read_reals key st = Inr k" and "\<not> transposed key"
    and "read_reals val st = Inr v"
    and "rel_option (\<lambda>r m. read_ints r st = Inr m) msk mv"
  shows "case attention q k v mv dropout of
           Inl e \<Rightarrow> fst (attention_st query key val msk dropout st) = Inl e
         | Inr (x, p) \<Rightarrow>
             (\<exists>rx rp. fst (attention_st query key val msk dropout st) = Inr (rx, rp)
                \<and> read_reals rx (snd (attention_st query key val msk dropout st)) = Inr x
                \<and> read_reals rp (snd (attention_st query key val msk dropout st)) = Inr p)"
  by (rule attention_st_computes_view[OF assms(1) read_reals_transpose_view[OF assms(3,2)]
        assms(4,5)])


theorem attention_st_inputs_unchanged_witness:
  "(let query = \<lparr>storage_of = 0, transposed = False\<rparr>;
        key = \<lparr>storage_of = 1, transposed = False\<rparr>;
        val = \<lparr>storage_of = 2, transposed = False\<rparr>;
        msk = \<lparr>storage_of = 3, transposed = False\<rparr>;
        st = [Reals [[1, 2], [3, 4]], Reals [[1, 0], [0, 1]], Reals [[5, 6], [7, 8]],
              Ints [[1, 0], [1, 1]]];
        st' = snd (attention_st query key val (Some msk) None st)
    in read_reals query st' = Inr [[1, 2], [3, 4]]
       \<and> read_reals key st' = Inr [[1, 0], [0, 1]]
       \<and> read_reals val st' = Inr [[5, 6], [7, 8]]
       \<and> read_ints msk st' = Inr [[1, 0], [1, 1]]
       \<and> take 4 st' = st
       \<and> st' ! 5 = Reals [[1 / sqrt 2, - 1000000000], [3 / sqrt 2, 4 / sqrt 2]])"
proof -
  let ?q = "\<lparr>storage_of = 0, transposed = False\<rparr>"
  let ?k = "\<lparr>storage_of = 1, transposed = False\<rparr>"
  let ?v = "\<lparr>storage_of = 2, transposed = False\<rparr>"
  let ?m = "\<lparr>storage_of = 3, transposed = False\<rparr>"
  let ?st = "[Reals [[1, 2], [3, 4]], Reals [[1, 0], [0, 1]], Reals [[5, 6], [7, 8]],
              Ints [[1, 0], [1, 1]]]"
  let ?st' = "snd (attention_st ?q ?k ?v (Some ?m) None ?st)"
  have h1: "storage_of ?q < length ?st" by simp
  have h2: "storage_of ?k < length ?st" by simp
  have h3: "storage_of ?v < length ?st" by simp
  have h4: "\<forall>m. Some ?m = Some m \<longrightarrow> storage_of m < length ?st" by simp
  note u = attention_st_inputs_unchanged[OF h1 h2 h3 h4, of None]
  have rq: "read_reals ?q ?st' = Inr [[1, 2], [3, 4]]"
    using u by (simp add: read_reals_def)
  have rk: "read_reals ?k ?st' = Inr [[1, 0], [0, 1]]"
    using u by (simp add: read_reals_def)
  have rv: "read_reals ?v ?st' = Inr [[5, 6], [7, 8]]"
    using u by (simp add: read_reals_def)
  have rm: "read_ints ?m ?st' = Inr [[1, 0], [1, 1]]"
    using u by (simp add: read_ints_def)
  have len: "length ?st \<le> length ?st'"
    using attention_st_frame[of 0 ?st ?q ?k ?v "Some ?m" None] by simp
  have tk: "take 4 ?st' = ?st"
  proof (rule nth_equalityI)
    show "length (take 4 ?st') = length ?st" using len by simp
    fix i assume "i < length (take 4 ?st')"
    then have i: "i < length ?st" using len by simp
    then have "?st' ! i = ?st ! i" using u by blast
    then show "take 4 ?st' ! i = ?st ! i" using i by simp
  qed
  have fill: "?st' ! 5 = Reals [[1 / sqrt 2, - 1000000000], [3 / sqrt 2, 4 / sqrt 2]]"
    by (simp add: attention_st_def masked_fill_st_def
          list_update_append_right st_bind_assoc st_bind_update st_bind_read st_bind_lift
          st_bind_new st_bind_ret st_ret_def st_new_def
          Let_def read_reals_def read_ints_def read_bools_def write_reals_def transpose_view_def
          nth_append matmul_def mat_transpose_def ncols_def masked_fill_def mask_fits_def
          mask_at_def eq_zero_def upt_2)
  show ?thesis
    unfolding Let_def using rq rk rv rm tk fill by blast
qed


end
